theory Spec2Isabelle
  imports Main "HOL-Library.AList" "HOL-Library.Word"
begin

section \<open>Python values, exceptions and strings\<close>

text \<open>
  The module \<^verbatim>\<open>pandare/arch.py\<close> raises Python exceptions. Each raise of the source is
  one constructor here, named after the error kind it stands for; the Python exception
  class and message are given beside it. The last five are faults of the Python run time
  (indexing, a non-integer index, a value that does not fit a fixed-width C integer,
  \<^verbatim>\<open>int()\<close> of a non-numeral, which is a \<^verbatim>\<open>ValueError\<close> too, and a failed \<^verbatim>\<open>assert\<close>).
\<close>

datatype exn =
    UnknownRegister string
      \<comment> \<open>\<^verbatim>\<open>ValueError(f"Invalid register name {reg}")\<close>\<close>
  | InvalidRegisterReference
      \<comment> \<open>\<^verbatim>\<open>ValueError(f"Can't set register {reg}")\<close>\<close>
  | ArgumentIndexOutOfRange int
      \<comment> \<open>\<^verbatim>\<open>NotImplementedError(f"Unsupported argument number {idx}")\<close>\<close>
  | UnsupportedConvention string
      \<comment> \<open>\<^verbatim>\<open>NotImplementedError(f"Unsupported convention {convention} for ...")\<close>\<close>
  | UnsupportedRetvalConvention string
      \<comment> \<open>\<^verbatim>\<open>NotImplementedError(f"Unsupported get_retval for architecture ...")\<close>\<close>
  | UnsupportedOperation
      \<comment> \<open>\<^verbatim>\<open>NotImplementedError()\<close> of the virtual accessors, \<^verbatim>\<open>RuntimeError\<close> of get_pc/set_pc\<close>
  | MemoryReadError
      \<comment> \<open>the \<^verbatim>\<open>ValueError\<close> that \<^verbatim>\<open>panda.virtual_memory_read\<close> raises when the read fails\<close>
  | IndexError
  | TypeError
  | OverflowError
  | IntValueError
  | AssertionError

text \<open>
  \<^verbatim>\<open>str.upper()\<close>, on the ASCII letters. The register names of every table are ASCII; a
  character outside \<open>a..z\<close> is left as it is.
\<close>

definition upper_char :: "char \<Rightarrow> char" where
  "upper_char c =
     (let n = (of_char c :: nat) in if 97 \<le> n \<and> n \<le> 122 then char_of (n - 32) else c)"

definition str_upper :: "string \<Rightarrow> string" where
  "str_upper s = map upper_char s"

text \<open>
  What "any casing of a name" means: the same length, and each character is the name's
  character, its lower-case form or its upper-case form. It is defined without
  \<open>str_upper\<close>, so that case-insensitivity of the lookup is a statement about the code.
\<close>

definition lower_char :: "char \<Rightarrow> char" where
  "lower_char c =
     (let n = (of_char c :: nat) in if 65 \<le> n \<and> n \<le> 90 then char_of (n + 32) else c)"

definition casing_of :: "string \<Rightarrow> string \<Rightarrow> bool" where
  "casing_of s t = list_all2 (\<lambda>c d. c = d \<or> c = lower_char d \<or> c = upper_char d) s t"

text \<open>\<^verbatim>\<open>s.startswith(pre)\<close>.\<close>

definition str_startswith :: "string \<Rightarrow> string \<Rightarrow> bool" where
  "str_startswith s pre = (take (length pre) s = pre)"

text \<open>
  \<^verbatim>\<open>s.split(sep)\<close> for a non-empty separator: the pieces between the occurrences of
  \<open>sep\<close>, scanned from the left. \<open>cur\<close> holds the current piece, reversed. (Python
  raises for an empty separator; the only separator of the module is \<^verbatim>\<open>"stack_"\<close>.)
\<close>

function str_split_from :: "string \<Rightarrow> string \<Rightarrow> string \<Rightarrow> string list" where
  "str_split_from sep cur [] = [rev cur]"
| "str_split_from sep cur (c # cs) =
     (if sep \<noteq> [] \<and> take (length sep) (c # cs) = sep
      then rev cur # str_split_from sep [] (drop (length sep) (c # cs))
      else str_split_from sep (c # cur) cs)"
  by pat_completeness auto
termination
  by (relation "measure (\<lambda>(sep, cur, s). length s)") auto

definition str_split :: "string \<Rightarrow> string \<Rightarrow> string list" where
  "str_split s sep = str_split_from sep [] s"

text \<open>
  \<^verbatim>\<open>int(s)\<close> in base 10: blanks around the numeral are dropped, one sign may lead, and
  single underscores may stand between digits; anything else is the \<^verbatim>\<open>ValueError\<close> of
  \<^verbatim>\<open>int()\<close>. (Digits outside ASCII are not modelled.)
\<close>

definition is_space :: "char \<Rightarrow> bool" where
  "is_space c =
     (let n = (of_char c :: nat)
      in (9 \<le> n \<and> n \<le> 13) \<or> (28 \<le> n \<and> n \<le> 32) \<or> n = 133 \<or> n = 160)"

definition str_strip :: "string \<Rightarrow> string" where
  "str_strip s = rev (dropWhile is_space (rev (dropWhile is_space s)))"

definition digit_val :: "char \<Rightarrow> nat option" where
  "digit_val c =
     (let n = (of_char c :: nat) in if 48 \<le> n \<and> n \<le> 57 then Some (n - 48) else None)"

fun digits_val :: "nat \<Rightarrow> string \<Rightarrow> nat option" where
  "digits_val acc [] = Some acc"
| "digits_val acc [c] =
     (case digit_val c of None \<Rightarrow> None | Some v \<Rightarrow> Some (10 * acc + v))"
| "digits_val acc (c # d # ds) =
     (if c = CHR ''_''
      then (case digit_val d of None \<Rightarrow> None | Some v \<Rightarrow> digits_val (10 * acc + v) ds)
      else (case digit_val c of None \<Rightarrow> None | Some v \<Rightarrow> digits_val (10 * acc + v) (d # ds)))"

definition digits_of :: "string \<Rightarrow> nat option" where
  "digits_of s =
     (case s of
        [] \<Rightarrow> None
      | c # cs \<Rightarrow> (case digit_val c of None \<Rightarrow> None | Some v \<Rightarrow> digits_val v cs))"

definition int_of_str :: "string \<Rightarrow> exn + int" where
  "int_of_str s =
     (let t = str_strip s;
          neg = (t \<noteq> [] \<and> hd t = CHR ''-'');
          body = (if t \<noteq> [] \<and> (hd t = CHR ''-'' \<or> hd t = CHR ''+'') then tl t else t)
      in case digits_of body of
           None \<Rightarrow> Inl IntValueError
         | Some n \<Rightarrow> Inr (if neg then - int n else int n))"

text \<open>
  \<^verbatim>\<open>xs[i]\<close> on a Python list: a negative index counts from the end, an index outside
  the list raises \<^verbatim>\<open>IndexError\<close>.
\<close>

definition list_item :: "'a list \<Rightarrow> int \<Rightarrow> exn + 'a" where
  "list_item xs i =
     (if 0 \<le> i \<and> i < int (length xs) then Inr (xs ! nat i)
      else if i < 0 \<and> - int (length xs) \<le> i then Inr (xs ! nat (int (length xs) + i))
      else Inl IndexError)"

text \<open>
  \<^verbatim>\<open>xs.index(x)\<close>: the first position of \<open>x\<close>. The constructors below only ask for
  names that are in the list (lemma \<open>special_names_present\<close>), so the \<^verbatim>\<open>ValueError\<close> of
  a missing element does not arise.
\<close>

fun list_index :: "'a list \<Rightarrow> 'a \<Rightarrow> nat" where
  "list_index [] x = 0"
| "list_index (y # ys) x = (if y = x then 0 else Suc (list_index ys x))"

text \<open>
  The dict comprehension \<^verbatim>\<open>{f(regnames[idx]): idx for idx in range(len(regnames))}\<close>. A
  Python dict keeps one entry per key: a key met again keeps its place and takes the new
  value, which is what \<open>AList.update\<close> does on an association list.
\<close>

definition dict_of_regnames :: "(string \<Rightarrow> string) \<Rightarrow> string list \<Rightarrow> (string \<times> int) list" where
  "dict_of_regnames f regnames =
     fold (\<lambda>idx d. AList.update (f (regnames ! idx)) (int idx) d) [0..<length regnames] []"

section \<open>The guest CPU, the session and the architecture profile\<close>

text \<open>
  What the module touches of the outside world, in one state:
  \<^item> \<open>regs\<close>: the engine's register array that the variant's accessor indexes
    (\<^verbatim>\<open>cpu.env_ptr.regs\<close>, \<^verbatim>\<open>cpu.env_ptr.xregs\<close>, \<^verbatim>\<open>cpu.env_ptr.active_tc.gpr\<close>). It is a
    fixed-size C array of unsigned words of the session's width: an index outside it
    raises \<^verbatim>\<open>IndexError\<close>, and a value that is negative or does not fit the word raises
    \<^verbatim>\<open>OverflowError\<close>.
  \<^item> \<open>pc\<close>: the engine's program counter (\<^verbatim>\<open>env_ptr.pc\<close>, \<^verbatim>\<open>env_ptr.eip\<close>,
    \<^verbatim>\<open>env_ptr.active_tc.PC\<close>).
  \<^item> \<open>guest_mem addr n\<close>: what \<^verbatim>\<open>panda.virtual_memory_read(cpu, addr, n, fmt='int')\<close>
    returns, \<open>None\<close> when the read fails (it then raises \<^verbatim>\<open>ValueError\<close>).
  \<^item> \<open>stdout\<close>: the lines printed so far.
\<close>

record cpu_state =
  regs :: "int list"
  pc :: int
  guest_mem :: "int \<Rightarrow> nat \<Rightarrow> int option"
  stdout :: "string list"

text \<open>The \<^verbatim>\<open>panda\<close> object: the architecture name and the word width in bits.\<close>

record panda =
  arch_name :: string
  bits :: nat

text \<open>
  \<^verbatim>\<open>_determine_bits\<close>: word width, byte order and register size in bytes
  (\<^verbatim>\<open>int(bits/8)\<close>) of the session's architecture name; the asserts fail for any other
  name.
\<close>

definition determine_bits :: "panda \<Rightarrow> exn + (nat \<times> string \<times> nat)" where
  "determine_bits p =
     (let n = arch_name p;
          r = (if n = ''i386'' then Some (32, ''little'')
               else if n = ''x86_64'' then Some (64, ''little'')
               else if n = ''arm'' then Some (32, ''little'')
               else if n = ''aarch64'' then Some (64, ''little'')
               else if n = ''ppc'' then Some (32, ''big'')
               else if n = ''mips'' then Some (32, ''big'')
               else if n = ''mipsel'' then Some (32, ''little'')
               else if n = ''mips64'' then Some (64, ''big'')
               else None)
      in case r of
           None \<Rightarrow> Inl AssertionError
         | Some (b, endianness) \<Rightarrow> Inr (b, endianness, b div 8))"

text \<open>
  An operation runs on the state and returns a value or raises; the state it leaves is
  returned in both cases.
\<close>

type_synonym 'a action = "cpu_state \<Rightarrow> (exn + 'a) \<times> cpu_state"

definition op_lift :: "exn + 'a \<Rightarrow> 'a action" where
  "op_lift r s = (r, s)"

definition op_return :: "'a \<Rightarrow> 'a action" where
  "op_return v = op_lift (Inr v)"

definition op_raise :: "exn \<Rightarrow> 'a action" where
  "op_raise e = op_lift (Inl e)"

definition op_bind :: "'a action \<Rightarrow> ('a \<Rightarrow> 'b action) \<Rightarrow> 'b action" where
  "op_bind m f s = (case m s of (Inl e, s') \<Rightarrow> (Inl e, s') | (Inr v, s') \<Rightarrow> f v s')"

text \<open>
  Modelled from the spec: \<^verbatim>\<open>panda.from_unsigned_guest\<close>, which the module calls and
  which is defined outside it, in \<^verbatim>\<open>pandare/panda.py\<close>. The spec's words: "the raw unsigned machine word is converted to the architecture's signed
  word representation (two's-complement reinterpretation at the profile's word width)".
  So a value with the top bit of the word set stands for itself minus \<open>2 ^ bits\<close>, and
  any other value for itself.
\<close>

definition from_unsigned_guest :: "panda \<Rightarrow> int \<Rightarrow> int" where
  "from_unsigned_guest p x = (if 2 ^ (bits p - 1) \<le> x then x - 2 ^ bits p else x)"

text \<open>
  \<^verbatim>\<open>panda.virtual_memory_read(cpu, addr, n, fmt='int')\<close>, also defined outside the module:
  the guest memory is a parameter of the state, and a failed read is the \<^verbatim>\<open>ValueError\<close>
  the docstrings of \<^verbatim>\<open>get_arg\<close> and \<^verbatim>\<open>_read_stack\<close> announce.
\<close>

definition virtual_memory_read :: "int \<Rightarrow> nat \<Rightarrow> int action" where
  "virtual_memory_read addr n s =
     (case guest_mem s addr n of None \<Rightarrow> (Inl MemoryReadError, s) | Some w \<Rightarrow> (Inr w, s))"

text \<open>The class of a profile: the base class and its six subclasses.\<close>

datatype arch_kind = Base | ARM | AArch64 | MIPS32 | MIPS64 | X86 | X86_64

text \<open>
  The fields of \<^verbatim>\<open>PandaArch\<close>. A field that can be \<^verbatim>\<open>None\<close> is an option; a dict is an
  association list in insertion order.
\<close>

record arch =
  kind :: arch_kind
  the_panda :: panda
  reg_sp :: "int option"
  reg_pc :: "int option"
  reg_retaddr :: "int option"
  reg_retval :: "(string \<times> string) list option"
  call_conventions :: "(string \<times> string list) list option"
  registers :: "(string \<times> int) list"

text \<open>
  A register reference as the callers give it: a name, an index, or \<^verbatim>\<open>None\<close> (what
  \<^verbatim>\<open>self.reg_sp\<close> is in a profile without a stack pointer).
\<close>

datatype reg_ref = RegName string | RegIdx int | RegNone

definition ref_of_field :: "int option \<Rightarrow> reg_ref" where
  "ref_of_field f = (case f of None \<Rightarrow> RegNone | Some i \<Rightarrow> RegIdx i)"

section \<open>The profiles\<close>

definition PandaArch_init :: "panda \<Rightarrow> arch" where
  "PandaArch_init p =
     \<lparr>kind = Base, the_panda = p, reg_sp = None, reg_pc = None, reg_retaddr = None,
      reg_retval = None, call_conventions = None, registers = []\<rparr>"

definition arm_regnames :: "string list" where
  "arm_regnames =
     [''R0'', ''R1'', ''R2'', ''R3'', ''R4'', ''R5'', ''R6'', ''R7'',
      ''R8'', ''R9'', ''R10'', ''R11'', ''R12'', ''SP'', ''LR'', ''IP'']"

definition ArmArch_init :: "panda \<Rightarrow> arch" where
  "ArmArch_init p =
     (let arm32 = [''R0'', ''R1'', ''R2'', ''R3''] in
      (PandaArch_init p)\<lparr>
        kind := ARM,
        registers := dict_of_regnames id arm_regnames,
        reg_sp := Some (int (list_index arm_regnames ''SP'')),
        reg_retaddr := Some (int (list_index arm_regnames ''LR'')),
        call_conventions := Some
          [(''arm32'', arm32),
           (''syscall'', [''R7'', ''R0'', ''R1'', ''R2'', ''R3'', ''R4'', ''R5'']),
           (''default'', arm32)],
        reg_retval := Some [(''default'', ''R0''), (''syscall'', ''R0'')],
        reg_pc := Some (int (list_index arm_regnames ''IP''))\<rparr>)"

definition aarch64_regnames :: "string list" where
  "aarch64_regnames =
     [''X0'', ''X1'', ''X2'', ''X3'', ''X4'', ''X5'', ''X6'', ''X7'',
      ''XR'', ''X9'', ''X10'', ''X11'', ''X12'', ''X13'', ''X14'',
      ''X15'', ''IP0'', ''IP1'', ''PR'', ''X19'', ''X20'', ''X21'',
      ''X22'', ''X23'', ''X24'', ''X25'', ''X26'', ''X27'', ''X27'',
      ''X28'', ''FP'', ''LR'', ''SP'']"

definition Aarch64Arch_init :: "panda \<Rightarrow> arch" where
  "Aarch64Arch_init p =
     (let arm64 = [''X0'', ''X1'', ''X2'', ''X3'', ''X4'', ''X5'', ''X6'', ''X7''] in
      (PandaArch_init p)\<lparr>
        kind := AArch64,
        registers := dict_of_regnames id aarch64_regnames,
        reg_sp := Some (int (list_index aarch64_regnames ''SP'')),
        reg_retaddr := Some (int (list_index aarch64_regnames ''LR'')),
        call_conventions := Some
          [(''arm64'', arm64),
           (''syscall'', [''XR'', ''X0'', ''X1'', ''X2'', ''X3'', ''X4'', ''X5'', ''X6'', ''X7'']),
           (''default'', arm64)],
        reg_retval := Some [(''default'', ''X0''), (''syscall'', ''X0'')]\<rparr>)"

definition mips_regnames :: "string list" where
  "mips_regnames =
     [''zero'', ''at'', ''v0'', ''v1'', ''a0'', ''a1'', ''a2'', ''a3'',
      ''t0'', ''t1'', ''t2'', ''t3'', ''t4'', ''t5'', ''t6'', ''t7'',
      ''s0'', ''s1'', ''s2'', ''s3'', ''s4'', ''s5'', ''s6'', ''s7'',
      ''t8'', ''t9'', ''k0'', ''k1'', ''gp'', ''sp'', ''fp'', ''ra'']"

definition MipsArch_init :: "panda \<Rightarrow> arch" where
  "MipsArch_init p =
     (let mips = [''A0'', ''A1'', ''A2'', ''A3''] in
      (PandaArch_init p)\<lparr>
        kind := MIPS32,
        reg_sp := Some (int (list_index mips_regnames ''sp'')),
        reg_retaddr := Some (int (list_index mips_regnames ''ra'')),
        call_conventions := Some
          [(''mips'', mips),
           (''syscall'', [''V0'', ''A0'', ''A1'', ''A2'', ''A3'',
                          ''stack_1'', ''stack_2'', ''stack_3'', ''stack_4'']),
           (''default'', mips)],
        reg_retval := Some [(''default'', ''V0''), (''syscall'', ''V0'')],
        registers := dict_of_regnames str_upper mips_regnames\<rparr>)"

definition mips64_regnames :: "string list" where
  "mips64_regnames =
     [''zero'', ''at'', ''v0'', ''v1'', ''a0'', ''a1'', ''a2'', ''a3'',
      ''a4'', ''a5'', ''a6'', ''a7'', ''t0'', ''t1'', ''t2'', ''t3'',
      ''s0'', ''s1'', ''s2'', ''s3'', ''s4'', ''s5'', ''s6'', ''s7'',
      ''t8'', ''t9'', ''k0'', ''k1'', ''gp'', ''sp'', ''s8'', ''ra'']"

text \<open>\<^verbatim>\<open>Mips64Arch\<close> runs \<^verbatim>\<open>MipsArch.__init__\<close> and then assigns every table again.\<close>

definition Mips64Arch_init :: "panda \<Rightarrow> arch" where
  "Mips64Arch_init p =
     (let mips = [''A0'', ''A1'', ''A2'', ''A3''] in
      (MipsArch_init p)\<lparr>
        kind := MIPS64,
        reg_sp := Some (int (list_index mips64_regnames ''sp'')),
        reg_retaddr := Some (int (list_index mips64_regnames ''ra'')),
        call_conventions := Some
          [(''mips'', mips),
           (''syscall'', [''V0'', ''A0'', ''A1'', ''A2'', ''A3'', ''A4'', ''A5'']),
           (''default'', mips)],
        reg_retval := Some [(''default'', ''V0''), (''syscall'', ''V0'')],
        registers := dict_of_regnames str_upper mips64_regnames\<rparr>)"

definition x86_regnames :: "string list" where
  "x86_regnames = [''EAX'', ''ECX'', ''EDX'', ''EBX'', ''ESP'', ''EBP'', ''ESI'', ''EDI'']"

text \<open>
  The \<open>cdecl\<close> list is \<^verbatim>\<open>["stack_{x}" for x in range(20)]\<close>: the string has no \<^verbatim>\<open>f\<close>
  prefix, so every one of the 20 entries is the text \<^verbatim>\<open>stack_{x}\<close> as written.
\<close>

definition X86Arch_init :: "panda \<Rightarrow> arch" where
  "X86Arch_init p =
     (let cdecl = map (\<lambda>x. ''stack_{x}'') [0..<20] in
      (PandaArch_init p)\<lparr>
        kind := X86,
        reg_retval := Some [(''default'', ''EAX''), (''syscall'', ''EAX'')],
        call_conventions := Some
          [(''cdecl'', cdecl),
           (''syscall'', [''EAX'', ''EBX'', ''ECX'', ''EDX'', ''ESI'', ''EDI'', ''EBP'']),
           (''default'', cdecl)],
        reg_sp := Some (int (list_index x86_regnames ''ESP'')),
        registers := dict_of_regnames id x86_regnames\<rparr>)"

definition x86_64_regnames :: "string list" where
  "x86_64_regnames =
     [''RAX'', ''RCX'', ''RDX'', ''RBX'', ''RSP'', ''RBP'', ''RSI'', ''RDI'',
      ''R8'', ''R9'', ''R10'', ''R11'', ''R12'', ''R13'', ''R14'', ''R15'']"

definition X86_64Arch_init :: "panda \<Rightarrow> arch" where
  "X86_64Arch_init p =
     (let sysv = [''RDI'', ''RSI'', ''RDX'', ''RCX'', ''R8'', ''R9''] in
      (PandaArch_init p)\<lparr>
        kind := X86_64,
        call_conventions := Some
          [(''sysv'', sysv),
           (''syscall'', [''RAX'', ''RDI'', ''RSI'', ''RDX'', ''R10'', ''R8'', ''R9'']),
           (''default'', sysv)],
        reg_sp := Some (int (list_index x86_64_regnames ''RSP'')),
        reg_retval := Some [(''sysv'', ''RAX''), (''syscall'', ''RAX''), (''default'', ''RAX'')],
        registers := dict_of_regnames id x86_64_regnames\<rparr>)"

text \<open>The six architecture variants of one session.\<close>

definition all_archs :: "panda \<Rightarrow> arch list" where
  "all_archs p =
     [ArmArch_init p, Aarch64Arch_init p, MipsArch_init p, Mips64Arch_init p,
      X86Arch_init p, X86_64Arch_init p]"

section \<open>Register access\<close>

text \<open>
  Indexing the engine's register array. \<open>None\<close> stands for an index that is not an
  integer. A store checks the index first and then that the value fits an unsigned word
  of \<open>w\<close> bits.
\<close>

definition c_array_get :: "int list \<Rightarrow> int option \<Rightarrow> exn + int" where
  "c_array_get xs idx =
     (case idx of
        None \<Rightarrow> Inl TypeError
      | Some i \<Rightarrow> if 0 \<le> i \<and> i < int (length xs) then Inr (xs ! nat i) else Inl IndexError)"

definition c_array_set :: "nat \<Rightarrow> int list \<Rightarrow> int \<Rightarrow> int \<Rightarrow> exn + int list" where
  "c_array_set w xs i v =
     (if \<not> (0 \<le> i \<and> i < int (length xs)) then Inl IndexError
      else if \<not> (0 \<le> v \<and> v < 2 ^ w) then Inl OverflowError
      else Inr (xs[nat i := v]))"

text \<open>\<^verbatim>\<open>_get_reg_val\<close>: virtual in the base class, the array read in the variants.\<close>

definition get_reg_val :: "arch \<Rightarrow> int option \<Rightarrow> int action" where
  "get_reg_val a idx s =
     (case kind a of
        Base \<Rightarrow> (Inl UnsupportedOperation, s)
      | AArch64 \<Rightarrow>
          if idx = Some 32
          then (Inr 0, s\<lparr>stdout := stdout s @ [''WARNING: unsupported get sp for aarch64'']\<rparr>)
          else (c_array_get (regs s) idx, s)
      | _ \<Rightarrow> (c_array_get (regs s) idx, s))"

text \<open>\<^verbatim>\<open>_set_reg_val\<close>.\<close>

definition set_reg_val :: "arch \<Rightarrow> int \<Rightarrow> int \<Rightarrow> unit action" where
  "set_reg_val a idx val s =
     (case kind a of
        Base \<Rightarrow> (Inl UnsupportedOperation, s)
      | _ \<Rightarrow>
          (case c_array_set (bits (the_panda a)) (regs s) idx val of
             Inl e \<Rightarrow> (Inl e, s)
           | Inr xs \<Rightarrow> (Inr (), s\<lparr>regs := xs\<rparr>)))"

definition get_reg :: "arch \<Rightarrow> reg_ref \<Rightarrow> int action" where
  "get_reg a reg =
     (case reg of
        RegName n \<Rightarrow>
          (let u = str_upper n in
           case map_of (registers a) u of
             None \<Rightarrow> op_raise (UnknownRegister u)
           | Some i \<Rightarrow> get_reg_val a (Some i))
      | RegIdx i \<Rightarrow> get_reg_val a (Some i)
      | RegNone \<Rightarrow> get_reg_val a None)"

definition set_reg :: "arch \<Rightarrow> reg_ref \<Rightarrow> int \<Rightarrow> unit action" where
  "set_reg a reg val =
     (case reg of
        RegName n \<Rightarrow>
          (let u = str_upper n in
           case map_of (registers a) u of
             None \<Rightarrow> op_raise (UnknownRegister u)
           | Some i \<Rightarrow> set_reg_val a i val)
      | RegIdx i \<Rightarrow> set_reg_val a i val
      | RegNone \<Rightarrow> op_raise InvalidRegisterReference)"

text \<open>
  \<^verbatim>\<open>get_pc\<close> and \<^verbatim>\<open>set_pc\<close>: the base class goes through \<^verbatim>\<open>self.reg_pc\<close> when it is
  truthy (not \<^verbatim>\<open>None\<close> and not 0); every variant but ARM overrides both with the
  engine's own program counter.
\<close>

definition get_pc :: "arch \<Rightarrow> int action" where
  "get_pc a s =
     (if kind a = Base \<or> kind a = ARM
      then (case reg_pc a of
              None \<Rightarrow> (Inl UnsupportedOperation, s)
            | Some i \<Rightarrow> if i = 0 then (Inl UnsupportedOperation, s) else get_reg a (RegIdx i) s)
      else (Inr (pc s), s))"

definition set_pc :: "arch \<Rightarrow> int \<Rightarrow> unit action" where
  "set_pc a val s =
     (if kind a = Base \<or> kind a = ARM
      then (case reg_pc a of
              None \<Rightarrow> (Inl UnsupportedOperation, s)
            | Some i \<Rightarrow> if i = 0 then (Inl UnsupportedOperation, s) else set_reg a (RegIdx i) val s)
      else (Inr (), s\<lparr>pc := val\<rparr>))"

section \<open>Arguments\<close>

text \<open>
  \<^verbatim>\<open>_get_arg_loc\<close>. \<^verbatim>\<open>self.call_conventions and convention in self.call_conventions\<close> is
  false for \<^verbatim>\<open>None\<close>, for the empty dict and for a missing key.
\<close>

definition get_arg_loc :: "arch \<Rightarrow> int \<Rightarrow> string \<Rightarrow> exn + string" where
  "get_arg_loc a idx convention =
     (case call_conventions a of
        None \<Rightarrow> Inl (UnsupportedConvention convention)
      | Some cc \<Rightarrow>
          (case map_of cc convention of
             None \<Rightarrow> Inl (UnsupportedConvention convention)
           | Some locs \<Rightarrow>
               if idx < int (length locs) then list_item locs idx
               else Inl (ArgumentIndexOutOfRange idx)))"

definition is_stack_loc :: "string \<Rightarrow> bool" where
  "is_stack_loc argloc = str_startswith argloc ''stack_''"

text \<open>The expression \<^verbatim>\<open>int(argloc.split("stack_")[1])\<close> of \<^verbatim>\<open>_read_stack\<close>.\<close>

definition stack_idx_of :: "string \<Rightarrow> exn + int" where
  "stack_idx_of argloc =
     (case list_item (str_split argloc ''stack_'') 1 of
        Inl e \<Rightarrow> Inl e
      | Inr piece \<Rightarrow> int_of_str piece)"

text \<open>\<^verbatim>\<open>_read_stack\<close>.\<close>

definition read_stack :: "arch \<Rightarrow> string \<Rightarrow> int action" where
  "read_stack a argloc =
     (if \<not> is_stack_loc argloc then op_raise AssertionError
      else
        op_bind (op_lift (stack_idx_of argloc)) (\<lambda>stack_idx.
        op_bind (get_reg a (ref_of_field (reg_sp a))) (\<lambda>stack_base.
          let arg_sz = bits (the_panda a) div 8;
              offset = int arg_sz * (stack_idx + 1)
          in virtual_memory_read (stack_base + offset) arg_sz)))"

definition set_arg :: "arch \<Rightarrow> int \<Rightarrow> int \<Rightarrow> string \<Rightarrow> unit action" where
  "set_arg a idx val convention =
     op_bind (op_lift (get_arg_loc a idx convention)) (\<lambda>reg. set_reg a (RegName reg) val)"

definition get_arg :: "arch \<Rightarrow> int \<Rightarrow> string \<Rightarrow> int action" where
  "get_arg a idx convention =
     op_bind (op_lift (get_arg_loc a idx convention)) (\<lambda>argloc.
       if is_stack_loc argloc then read_stack a argloc else get_reg a (RegName argloc))"

section \<open>Return values\<close>

text \<open>\<^verbatim>\<open>_get_ret_val_reg\<close>.\<close>

definition get_ret_val_reg :: "arch \<Rightarrow> string \<Rightarrow> exn + string" where
  "get_ret_val_reg a convention =
     (case reg_retval a of
        None \<Rightarrow> Inl (UnsupportedRetvalConvention convention)
      | Some rr \<Rightarrow>
          (case map_of rr convention of
             None \<Rightarrow> Inl (UnsupportedRetvalConvention convention)
           | Some reg \<Rightarrow> Inr reg))"

text \<open>\<^verbatim>\<open>PandaArch.set_retval\<close>: the \<open>failure\<close> argument is not used.\<close>

definition PandaArch_set_retval :: "arch \<Rightarrow> int \<Rightarrow> string \<Rightarrow> bool \<Rightarrow> unit action" where
  "PandaArch_set_retval a val convention failure =
     op_bind (op_lift (get_ret_val_reg a convention)) (\<lambda>reg. set_reg a (RegName reg) val)"

text \<open>\<^verbatim>\<open>PandaArch.get_retval\<close>.\<close>

definition PandaArch_get_retval :: "arch \<Rightarrow> string \<Rightarrow> int action" where
  "PandaArch_get_retval a convention =
     op_bind (op_lift (get_ret_val_reg a convention)) (\<lambda>reg.
     op_bind (get_reg a (RegName reg)) (\<lambda>rv.
       op_return (if convention = ''syscall'' then from_unsigned_guest (the_panda a) rv else rv)))"

text \<open>
  \<^verbatim>\<open>MipsArch.get_retval\<close>: \<^verbatim>\<open>A3\<close> is read only when the convention is \<^verbatim>\<open>'syscall'\<close>, and
  \<^verbatim>\<open>super().get_retval(cpu)\<close> is called without the convention, which is then
  \<^verbatim>\<open>'default'\<close>.
\<close>

definition MipsArch_get_retval :: "arch \<Rightarrow> string \<Rightarrow> int action" where
  "MipsArch_get_retval a convention =
     op_bind
       (if convention = ''syscall''
        then op_bind (get_reg a (RegName ''A3'')) (\<lambda>a3. op_return (if a3 = 1 then - 1 else 1))
        else op_return (1 :: int))
       (\<lambda>flip. op_bind (PandaArch_get_retval a ''default'') (\<lambda>rv. op_return (flip * rv)))"

text \<open>
  \<^verbatim>\<open>MipsArch.set_retval\<close>. The Python bool \<open>failure\<close> is stored in the register as 1 or
  0.
\<close>

definition MipsArch_set_retval :: "arch \<Rightarrow> int \<Rightarrow> string \<Rightarrow> bool \<Rightarrow> unit action" where
  "MipsArch_set_retval a val convention failure =
     (if convention = ''syscall''
      then
        op_bind (set_reg a (RegName ''a3'') (if failure then 1 else 0)) (\<lambda>_.
          PandaArch_set_retval a
            (if failure \<and> from_unsigned_guest (the_panda a) val < 0
             then - 1 * from_unsigned_guest (the_panda a) val else val)
            convention False)
      else PandaArch_set_retval a val convention False)"

text \<open>Method dispatch: the MIPS classes override both operations.\<close>

definition get_retval :: "arch \<Rightarrow> string \<Rightarrow> int action" where
  "get_retval a convention =
     (if kind a = MIPS32 \<or> kind a = MIPS64 then MipsArch_get_retval a convention
      else PandaArch_get_retval a convention)"

definition set_retval :: "arch \<Rightarrow> int \<Rightarrow> string \<Rightarrow> bool \<Rightarrow> unit action" where
  "set_retval a val convention failure =
     (if kind a = MIPS32 \<or> kind a = MIPS64 then MipsArch_set_retval a val convention failure
      else PandaArch_set_retval a val convention failure)"

section \<open>Concrete sessions and CPU states\<close>

text \<open>Sessions with the word width that \<open>determine_bits\<close> gives their architecture name.\<close>

definition i386_panda :: panda where
  "i386_panda = \<lparr>arch_name = ''i386'', bits = 32\<rparr>"

definition arm_panda :: panda where
  "arm_panda = \<lparr>arch_name = ''arm'', bits = 32\<rparr>"

definition aarch64_panda :: panda where
  "aarch64_panda = \<lparr>arch_name = ''aarch64'', bits = 64\<rparr>"

definition x86_64_panda :: panda where
  "x86_64_panda = \<lparr>arch_name = ''x86_64'', bits = 64\<rparr>"

definition mips_panda :: panda where
  "mips_panda = \<lparr>arch_name = ''mips'', bits = 32\<rparr>"

definition mips64_panda :: panda where
  "mips64_panda = \<lparr>arch_name = ''mips64'', bits = 64\<rparr>"

text \<open>A guest memory in which every read fails, and one that holds the word 42 at 0x1004.\<close>

definition no_memory :: "int \<Rightarrow> nat \<Rightarrow> int option" where
  "no_memory addr n = None"

definition demo_memory :: "int \<Rightarrow> nat \<Rightarrow> int option" where
  "demo_memory addr n = (if addr = 4100 \<and> n = 4 then Some 42 else None)"

text \<open>A paused CPU with the given register array and guest memory, nothing printed yet.\<close>

definition cpu_with :: "int list \<Rightarrow> (int \<Rightarrow> nat \<Rightarrow> int option) \<Rightarrow> cpu_state" where
  "cpu_with rs m = \<lparr>regs = rs, pc = 0, guest_mem = m, stdout = []\<rparr>"

section \<open>Facts about the model\<close>

subsection \<open>The tables, evaluated\<close>

lemma special_names_present:
  "''SP'' \<in> set arm_regnames \<and> ''LR'' \<in> set arm_regnames \<and> ''IP'' \<in> set arm_regnames
   \<and> ''SP'' \<in> set aarch64_regnames \<and> ''LR'' \<in> set aarch64_regnames
   \<and> ''sp'' \<in> set mips_regnames \<and> ''ra'' \<in> set mips_regnames
   \<and> ''sp'' \<in> set mips64_regnames \<and> ''ra'' \<in> set mips64_regnames
   \<and> ''ESP'' \<in> set x86_regnames \<and> ''RSP'' \<in> set x86_64_regnames"
  by (simp add: arm_regnames_def aarch64_regnames_def mips_regnames_def
      mips64_regnames_def x86_regnames_def x86_64_regnames_def)

lemma arm_table:
  "dict_of_regnames id arm_regnames =
     [(''R0'', 0), (''R1'', 1), (''R2'', 2), (''R3'', 3), (''R4'', 4), (''R5'', 5),
      (''R6'', 6), (''R7'', 7), (''R8'', 8), (''R9'', 9), (''R10'', 10), (''R11'', 11),
      (''R12'', 12), (''SP'', 13), (''LR'', 14), (''IP'', 15)]"
  by code_simp

lemma aarch64_table:
  "dict_of_regnames id aarch64_regnames =
     [(''X0'', 0), (''X1'', 1), (''X2'', 2), (''X3'', 3), (''X4'', 4),
      (''X5'', 5), (''X6'', 6), (''X7'', 7), (''XR'', 8), (''X9'', 9),
      (''X10'', 10), (''X11'', 11), (''X12'', 12), (''X13'', 13), (''X14'', 14),
      (''X15'', 15), (''IP0'', 16), (''IP1'', 17), (''PR'', 18), (''X19'', 19),
      (''X20'', 20), (''X21'', 21), (''X22'', 22), (''X23'', 23), (''X24'', 24),
      (''X25'', 25), (''X26'', 26), (''X27'', 28), (''X28'', 29), (''FP'', 30),
      (''LR'', 31), (''SP'', 32)]"
  by code_simp

lemma mips_table:
  "dict_of_regnames str_upper mips_regnames =
     [(''ZERO'', 0), (''AT'', 1), (''V0'', 2), (''V1'', 3), (''A0'', 4),
      (''A1'', 5), (''A2'', 6), (''A3'', 7), (''T0'', 8), (''T1'', 9),
      (''T2'', 10), (''T3'', 11), (''T4'', 12), (''T5'', 13), (''T6'', 14),
      (''T7'', 15), (''S0'', 16), (''S1'', 17), (''S2'', 18), (''S3'', 19),
      (''S4'', 20), (''S5'', 21), (''S6'', 22), (''S7'', 23), (''T8'', 24),
      (''T9'', 25), (''K0'', 26), (''K1'', 27), (''GP'', 28), (''SP'', 29),
      (''FP'', 30), (''RA'', 31)]"
  by code_simp

lemma mips64_table:
  "dict_of_regnames str_upper mips64_regnames =
     [(''ZERO'', 0), (''AT'', 1), (''V0'', 2), (''V1'', 3), (''A0'', 4),
      (''A1'', 5), (''A2'', 6), (''A3'', 7), (''A4'', 8), (''A5'', 9),
      (''A6'', 10), (''A7'', 11), (''T0'', 12), (''T1'', 13), (''T2'', 14),
      (''T3'', 15), (''S0'', 16), (''S1'', 17), (''S2'', 18), (''S3'', 19),
      (''S4'', 20), (''S5'', 21), (''S6'', 22), (''S7'', 23), (''T8'', 24),
      (''T9'', 25), (''K0'', 26), (''K1'', 27), (''GP'', 28), (''SP'', 29),
      (''S8'', 30), (''RA'', 31)]"
  by code_simp

lemma x86_table:
  "dict_of_regnames id x86_regnames =
     [(''EAX'', 0), (''ECX'', 1), (''EDX'', 2), (''EBX'', 3), (''ESP'', 4), (''EBP'', 5),
      (''ESI'', 6), (''EDI'', 7)]"
  by code_simp

lemma x86_64_table:
  "dict_of_regnames id x86_64_regnames =
     [(''RAX'', 0), (''RCX'', 1), (''RDX'', 2), (''RBX'', 3), (''RSP'', 4), (''RBP'', 5),
      (''RSI'', 6), (''RDI'', 7), (''R8'', 8), (''R9'', 9), (''R10'', 10), (''R11'', 11),
      (''R12'', 12), (''R13'', 13), (''R14'', 14), (''R15'', 15)]"
  by code_simp

subsection \<open>The profiles, evaluated\<close>

lemma ArmArch_profile:
  "ArmArch_init p =
     \<lparr>kind = ARM, the_panda = p, reg_sp = Some 13, reg_pc = Some 15, reg_retaddr = Some 14,
      reg_retval = Some [(''default'', ''R0''), (''syscall'', ''R0'')],
      call_conventions = Some
        [(''arm32'', [''R0'', ''R1'', ''R2'', ''R3'']),
         (''syscall'', [''R7'', ''R0'', ''R1'', ''R2'', ''R3'', ''R4'', ''R5'']),
         (''default'', [''R0'', ''R1'', ''R2'', ''R3''])],
      registers =
        [(''R0'', 0), (''R1'', 1), (''R2'', 2), (''R3'', 3), (''R4'', 4), (''R5'', 5),
         (''R6'', 6), (''R7'', 7), (''R8'', 8), (''R9'', 9), (''R10'', 10), (''R11'', 11),
         (''R12'', 12), (''SP'', 13), (''LR'', 14), (''IP'', 15)]\<rparr>"
  by (simp add: ArmArch_init_def PandaArch_init_def Let_def arm_table)
     (simp add: arm_regnames_def)

lemma Aarch64Arch_profile:
  "Aarch64Arch_init p =
     \<lparr>kind = AArch64, the_panda = p, reg_sp = Some 32, reg_pc = None, reg_retaddr = Some 31,
      reg_retval = Some [(''default'', ''X0''), (''syscall'', ''X0'')],
      call_conventions = Some
        [(''arm64'', [''X0'', ''X1'', ''X2'', ''X3'', ''X4'', ''X5'', ''X6'', ''X7'']),
         (''syscall'', [''XR'', ''X0'', ''X1'', ''X2'', ''X3'', ''X4'', ''X5'', ''X6'', ''X7'']),
         (''default'', [''X0'', ''X1'', ''X2'', ''X3'', ''X4'', ''X5'', ''X6'', ''X7''])],
      registers =
        [(''X0'', 0), (''X1'', 1), (''X2'', 2), (''X3'', 3), (''X4'', 4),
         (''X5'', 5), (''X6'', 6), (''X7'', 7), (''XR'', 8), (''X9'', 9),
         (''X10'', 10), (''X11'', 11), (''X12'', 12), (''X13'', 13), (''X14'', 14),
         (''X15'', 15), (''IP0'', 16), (''IP1'', 17), (''PR'', 18), (''X19'', 19),
         (''X20'', 20), (''X21'', 21), (''X22'', 22), (''X23'', 23), (''X24'', 24),
         (''X25'', 25), (''X26'', 26), (''X27'', 28), (''X28'', 29), (''FP'', 30),
         (''LR'', 31), (''SP'', 32)]\<rparr>"
  by (simp add: Aarch64Arch_init_def PandaArch_init_def Let_def aarch64_table)
     (simp add: aarch64_regnames_def)

lemma MipsArch_profile:
  "MipsArch_init p =
     \<lparr>kind = MIPS32, the_panda = p, reg_sp = Some 29, reg_pc = None, reg_retaddr = Some 31,
      reg_retval = Some [(''default'', ''V0''), (''syscall'', ''V0'')],
      call_conventions = Some
        [(''mips'', [''A0'', ''A1'', ''A2'', ''A3'']),
         (''syscall'', [''V0'', ''A0'', ''A1'', ''A2'', ''A3'',
                        ''stack_1'', ''stack_2'', ''stack_3'', ''stack_4'']),
         (''default'', [''A0'', ''A1'', ''A2'', ''A3''])],
      registers =
        [(''ZERO'', 0), (''AT'', 1), (''V0'', 2), (''V1'', 3), (''A0'', 4),
         (''A1'', 5), (''A2'', 6), (''A3'', 7), (''T0'', 8), (''T1'', 9),
         (''T2'', 10), (''T3'', 11), (''T4'', 12), (''T5'', 13), (''T6'', 14),
         (''T7'', 15), (''S0'', 16), (''S1'', 17), (''S2'', 18), (''S3'', 19),
         (''S4'', 20), (''S5'', 21), (''S6'', 22), (''S7'', 23), (''T8'', 24),
         (''T9'', 25), (''K0'', 26), (''K1'', 27), (''GP'', 28), (''SP'', 29),
         (''FP'', 30), (''RA'', 31)]\<rparr>"
  by (simp add: MipsArch_init_def PandaArch_init_def Let_def mips_table)
     (simp add: mips_regnames_def)

lemma Mips64Arch_profile:
  "Mips64Arch_init p =
     \<lparr>kind = MIPS64, the_panda = p, reg_sp = Some 29, reg_pc = None, reg_retaddr = Some 31,
      reg_retval = Some [(''default'', ''V0''), (''syscall'', ''V0'')],
      call_conventions = Some
        [(''mips'', [''A0'', ''A1'', ''A2'', ''A3'']),
         (''syscall'', [''V0'', ''A0'', ''A1'', ''A2'', ''A3'', ''A4'', ''A5'']),
         (''default'', [''A0'', ''A1'', ''A2'', ''A3''])],
      registers =
        [(''ZERO'', 0), (''AT'', 1), (''V0'', 2), (''V1'', 3), (''A0'', 4),
         (''A1'', 5), (''A2'', 6), (''A3'', 7), (''A4'', 8), (''A5'', 9),
         (''A6'', 10), (''A7'', 11), (''T0'', 12), (''T1'', 13), (''T2'', 14),
         (''T3'', 15), (''S0'', 16), (''S1'', 17), (''S2'', 18), (''S3'', 19),
         (''S4'', 20), (''S5'', 21), (''S6'', 22), (''S7'', 23), (''T8'', 24),
         (''T9'', 25), (''K0'', 26), (''K1'', 27), (''GP'', 28), (''SP'', 29),
         (''S8'', 30), (''RA'', 31)]\<rparr>"
  by (simp add: Mips64Arch_init_def MipsArch_init_def PandaArch_init_def Let_def mips64_table)
     (simp add: mips64_regnames_def)

lemma X86Arch_profile:
  "X86Arch_init p =
     \<lparr>kind = X86, the_panda = p, reg_sp = Some 4, reg_pc = None, reg_retaddr = None,
      reg_retval = Some [(''default'', ''EAX''), (''syscall'', ''EAX'')],
      call_conventions = Some
        [(''cdecl'', replicate 20 ''stack_{x}''),
         (''syscall'', [''EAX'', ''EBX'', ''ECX'', ''EDX'', ''ESI'', ''EDI'', ''EBP'']),
         (''default'', replicate 20 ''stack_{x}'')],
      registers =
        [(''EAX'', 0), (''ECX'', 1), (''EDX'', 2), (''EBX'', 3), (''ESP'', 4), (''EBP'', 5),
         (''ESI'', 6), (''EDI'', 7)]\<rparr>"
  by (simp add: X86Arch_init_def PandaArch_init_def Let_def x86_table map_replicate_const)
     (simp add: x86_regnames_def)

lemma X86_64Arch_profile:
  "X86_64Arch_init p =
     \<lparr>kind = X86_64, the_panda = p, reg_sp = Some 4, reg_pc = None, reg_retaddr = None,
      reg_retval = Some [(''sysv'', ''RAX''), (''syscall'', ''RAX''), (''default'', ''RAX'')],
      call_conventions = Some
        [(''sysv'', [''RDI'', ''RSI'', ''RDX'', ''RCX'', ''R8'', ''R9'']),
         (''syscall'', [''RAX'', ''RDI'', ''RSI'', ''RDX'', ''R10'', ''R8'', ''R9'']),
         (''default'', [''RDI'', ''RSI'', ''RDX'', ''RCX'', ''R8'', ''R9''])],
      registers =
        [(''RAX'', 0), (''RCX'', 1), (''RDX'', 2), (''RBX'', 3), (''RSP'', 4), (''RBP'', 5),
         (''RSI'', 6), (''RDI'', 7), (''R8'', 8), (''R9'', 9), (''R10'', 10), (''R11'', 11),
         (''R12'', 12), (''R13'', 13), (''R14'', 14), (''R15'', 15)]\<rparr>"
  by (simp add: X86_64Arch_init_def PandaArch_init_def Let_def x86_64_table)
     (simp add: x86_64_regnames_def)

lemmas profiles =
  ArmArch_profile Aarch64Arch_profile MipsArch_profile Mips64Arch_profile
  X86Arch_profile X86_64Arch_profile

subsection \<open>Running operations\<close>

lemma op_bind_lift_Inl [simp]: "op_bind (op_lift (Inl e)) f s = (Inl e, s)"
  by (simp add: op_bind_def op_lift_def)

lemma op_bind_lift_Inr [simp]: "op_bind (op_lift (Inr v)) f s = f v s"
  by (simp add: op_bind_def op_lift_def)

subsection \<open>Names and their casings\<close>

lemma upper_char_idem: "upper_char (upper_char d) = upper_char d"
  by (auto simp: upper_char_def Let_def)

lemma upper_lower_char: "upper_char (lower_char d) = upper_char d"
  by (auto simp: upper_char_def lower_char_def Let_def)

lemma casing_of_upper: "casing_of s t \<Longrightarrow> str_upper s = str_upper t"
  unfolding casing_of_def str_upper_def
  by (induction s t rule: list_all2_induct) (auto simp: upper_char_idem upper_lower_char)

lemma keys_upper_exec:
  "list_all (\<lambda>a. list_all (\<lambda>k. str_upper k = k) (map fst (registers a))) (all_archs p)"
  unfolding all_archs_def profiles
  by code_simp

lemma keys_distinct_exec:
  "list_all (\<lambda>a. distinct (map fst (registers a))) (all_archs p)"
  unfolding all_archs_def profiles
  by code_simp

lemma key_upper:
  assumes "a \<in> set (all_archs p)" and "(name, idx) \<in> set (registers a)"
  shows "str_upper name = name"
proof -
  from keys_upper_exec [of p] assms(1)
  have "list_all (\<lambda>k. str_upper k = k) (map fst (registers a))"
    by (simp add: list_all_iff)
  moreover from assms(2) have "name \<in> set (map fst (registers a))"
    by force
  ultimately show ?thesis
    by (auto simp: list_all_iff)
qed

lemma key_lookup:
  assumes "a \<in> set (all_archs p)" and "(name, idx) \<in> set (registers a)"
  shows "map_of (registers a) name = Some idx"
proof -
  from keys_distinct_exec [of p] assms(1) have "distinct (map fst (registers a))"
    by (simp add: list_all_iff)
  with assms(2) show ?thesis
    by simp
qed

lemma casing_lookup:
  assumes "a \<in> set (all_archs p)" and "(name, idx) \<in> set (registers a)"
    and "casing_of n name"
  shows "map_of (registers a) (str_upper n) = Some idx"
  using casing_of_upper [OF assms(3)] key_upper [OF assms(1,2)] key_lookup [OF assms(1,2)]
  by simp

section \<open>Argument resolution errors\<close>

text \<open>
  C7. On any profile, \<open>get_arg\<close> with a convention that the profile's convention map does
  not define raises the unsupported-convention error, and with a convention that is
  defined and an index at or beyond the length of its location list raises the
  argument-index error; the state is left as it was.
\<close>

theorem C7_get_arg_errors:
  "(convention \<notin> dom (map_of (case call_conventions a of None \<Rightarrow> [] | Some cc \<Rightarrow> cc))
      \<longrightarrow> get_arg a idx convention s = (Inl (UnsupportedConvention convention), s))
   \<and> (\<forall>cc locs. call_conventions a = Some cc \<and> map_of cc convention = Some locs
         \<and> int (length locs) \<le> idx
      \<longrightarrow> get_arg a idx convention s = (Inl (ArgumentIndexOutOfRange idx), s))"
  by (auto simp: get_arg_def get_arg_loc_def domIff split: option.splits)

theorem C7_get_arg_errors_witness:
  "''bogus'' \<notin> dom (map_of (case call_conventions (ArmArch_init arm_panda) of
                                 None \<Rightarrow> [] | Some cc \<Rightarrow> cc))
   \<and> get_arg (ArmArch_init arm_panda) 0 ''bogus'' (cpu_with [] no_memory)
       = (Inl (UnsupportedConvention ''bogus''), cpu_with [] no_memory)
   \<and> call_conventions (X86_64Arch_init x86_64_panda) = Some
        [(''sysv'', [''RDI'', ''RSI'', ''RDX'', ''RCX'', ''R8'', ''R9'']),
         (''syscall'', [''RAX'', ''RDI'', ''RSI'', ''RDX'', ''R10'', ''R8'', ''R9'']),
         (''default'', [''RDI'', ''RSI'', ''RDX'', ''RCX'', ''R8'', ''R9''])]
   \<and> get_arg (X86_64Arch_init x86_64_panda) 6 ''default'' (cpu_with [] no_memory)
       = (Inl (ArgumentIndexOutOfRange 6), cpu_with [] no_memory)"
  using C7_get_arg_errors [of "''bogus''" "ArmArch_init arm_panda" 0 "cpu_with [] no_memory"]
    C7_get_arg_errors [of "''default''" "X86_64Arch_init x86_64_panda" 6 "cpu_with [] no_memory"]
  by (simp add: profiles)

section \<open>Case-insensitive register lookup\<close>

text \<open>
  C9. On each of the six profiles, for every name of the register table and every string
  that is a casing of it, \<open>get_reg\<close> by that string gives what \<open>get_reg\<close> by the name
  gives, in every CPU state: both resolve to the name's index, because the string is
  upper-cased before the table is searched.
\<close>

theorem C9_case_insensitive_lookup:
  assumes "a \<in> set (all_archs p)" and "(name, idx) \<in> set (registers a)"
    and "casing_of n name"
  shows "get_reg a (RegName n) s = get_reg a (RegName name) s
         \<and> get_reg a (RegName n) s = get_reg_val a (Some idx) s"
proof -
  have "map_of (registers a) (str_upper n) = Some idx"
    using assms by (rule casing_lookup)
  moreover have "map_of (registers a) (str_upper name) = Some idx"
    using key_upper [OF assms(1,2)] key_lookup [OF assms(1,2)] by simp
  ultimately show ?thesis
    by (simp add: get_reg_def)
qed

theorem C9_case_insensitive_lookup_witness:
  "ArmArch_init arm_panda \<in> set (all_archs arm_panda)
   \<and> (''R0'', 0) \<in> set (registers (ArmArch_init arm_panda))
   \<and> casing_of ''r0'' ''R0''
   \<and> get_reg (ArmArch_init arm_panda) (RegName ''r0'') (cpu_with [7, 8, 9] no_memory)
       = get_reg (ArmArch_init arm_panda) (RegName ''R0'') (cpu_with [7, 8, 9] no_memory)
   \<and> get_reg (ArmArch_init arm_panda) (RegName ''r0'') (cpu_with [7, 8, 9] no_memory)
       = (Inr 7, cpu_with [7, 8, 9] no_memory)"
proof -
  have h1: "ArmArch_init arm_panda \<in> set (all_archs arm_panda)"
    by (simp add: all_archs_def)
  have h2: "(''R0'', 0) \<in> set (registers (ArmArch_init arm_panda))"
    by (simp add: ArmArch_profile)
  have h3: "casing_of ''r0'' ''R0''"
    by code_simp
  have v: "get_reg_val (ArmArch_init arm_panda) (Some 0) (cpu_with [7, 8, 9] no_memory)
      = (Inr 7, cpu_with [7, 8, 9] no_memory)"
    by (simp add: get_reg_val_def ArmArch_profile c_array_get_def cpu_with_def)
  show ?thesis
    using C9_case_insensitive_lookup [OF h1 h2 h3, of "cpu_with [7, 8, 9] no_memory"] h1 h2 h3 v
    by auto
qed

section \<open>The stack pointer name of AArch64\<close>

text \<open>
  C10. On AArch64, any casing of \<open>SP\<close> resolves to index 32, and \<open>get_reg\<close> then
  returns 0 and prints the warning, whatever the register array holds, without reading
  it. So no write of a value other than 0 through that name is read back.
\<close>

theorem C10_aarch64_sp_reads_zero:
  assumes "casing_of n ''SP''"
  shows "map_of (registers (Aarch64Arch_init p)) (str_upper n) = Some 32
         \<and> get_reg (Aarch64Arch_init p) (RegName n) s
             = (Inr 0, s\<lparr>stdout := stdout s @ [''WARNING: unsupported get sp for aarch64'']\<rparr>)
         \<and> (\<forall>v s'. v \<noteq> 0 \<and> set_reg (Aarch64Arch_init p) (RegName n) v s = (Inr (), s')
              \<longrightarrow> fst (get_reg (Aarch64Arch_init p) (RegName n) s') \<noteq> Inr v)"
proof -
  have up: "str_upper n = ''SP''"
    using casing_of_upper [OF assms] by (simp add: str_upper_def upper_char_def)
  have look: "map_of (registers (Aarch64Arch_init p)) (str_upper n) = Some 32"
    unfolding up by (simp add: Aarch64Arch_profile)
  have rd: "get_reg (Aarch64Arch_init p) (RegName n) t
             = (Inr 0, t\<lparr>stdout := stdout t @ [''WARNING: unsupported get sp for aarch64'']\<rparr>)" for t
    using look by (simp add: get_reg_def get_reg_val_def Aarch64Arch_profile)
  show ?thesis
    using look rd by auto
qed

theorem C10_aarch64_sp_reads_zero_witness:
  "casing_of ''sp'' ''SP''
   \<and> map_of (registers (Aarch64Arch_init aarch64_panda)) (str_upper ''sp'') = Some 32
   \<and> get_reg (Aarch64Arch_init aarch64_panda) (RegName ''sp'') (cpu_with (replicate 33 7) no_memory)
       = (Inr 0, (cpu_with (replicate 33 7) no_memory)
                   \<lparr>stdout := [''WARNING: unsupported get sp for aarch64'']\<rparr>)
   \<and> (1 :: int) \<noteq> 0
   \<and> set_reg (Aarch64Arch_init aarch64_panda) (RegName ''sp'') 1
         (cpu_with (replicate 33 7) no_memory)
       = (Inr (), cpu_with ((replicate 33 7)[32 := 1]) no_memory)
   \<and> fst (get_reg (Aarch64Arch_init aarch64_panda) (RegName ''sp'')
              (cpu_with ((replicate 33 7)[32 := 1]) no_memory)) \<noteq> Inr 1"
proof -
  have h: "casing_of ''sp'' ''SP''"
    by code_simp
  have up: "str_upper ''sp'' = ''SP''"
    by code_simp
  have w: "set_reg (Aarch64Arch_init aarch64_panda) (RegName ''sp'') 1
         (cpu_with (replicate 33 7) no_memory)
       = (Inr (), cpu_with ((replicate 33 7)[32 := 1]) no_memory)"
    by (simp add: set_reg_def up Aarch64Arch_profile set_reg_val_def c_array_set_def cpu_with_def
        aarch64_panda_def)
  show ?thesis
    using C10_aarch64_sp_reads_zero [OF h, of aarch64_panda "cpu_with (replicate 33 7) no_memory"] h w
    by (simp add: cpu_with_def)
qed

section \<open>Writing a register and reading it back\<close>

subsection \<open>The six variants\<close>

lemma all_archs_cases:
  "a \<in> set (all_archs p) \<Longrightarrow>
     a = ArmArch_init p \<or> a = Aarch64Arch_init p \<or> a = MipsArch_init p
     \<or> a = Mips64Arch_init p \<or> a = X86Arch_init p \<or> a = X86_64Arch_init p"
  by (simp add: all_archs_def)

lemma kinds:
  "kind (ArmArch_init p) = ARM" "kind (Aarch64Arch_init p) = AArch64"
  "kind (MipsArch_init p) = MIPS32" "kind (Mips64Arch_init p) = MIPS64"
  "kind (X86Arch_init p) = X86" "kind (X86_64Arch_init p) = X86_64"
  by (simp_all add: profiles)

lemma pandas:
  "the_panda (ArmArch_init p) = p" "the_panda (Aarch64Arch_init p) = p"
  "the_panda (MipsArch_init p) = p" "the_panda (Mips64Arch_init p) = p"
  "the_panda (X86Arch_init p) = p" "the_panda (X86_64Arch_init p) = p"
  by (simp_all add: profiles)

lemma the_panda_all: "a \<in> set (all_archs p) \<Longrightarrow> the_panda a = p"
  by (auto dest!: all_archs_cases simp: pandas)

lemma kind_not_Base: "a \<in> set (all_archs p) \<Longrightarrow> kind a \<noteq> Base"
  by (auto dest!: all_archs_cases simp: kinds)

lemma kind_AArch64: "a \<in> set (all_archs p) \<Longrightarrow> kind a = AArch64 \<Longrightarrow> a = Aarch64Arch_init p"
  by (auto dest!: all_archs_cases simp: kinds)

lemma aarch64_index_32:
  "(name, 32) \<in> set (registers (Aarch64Arch_init p)) \<Longrightarrow> name = ''SP''"
  by (auto simp: Aarch64Arch_profile)

lemma indices_nonneg_exec:
  "list_all (\<lambda>a. list_all (\<lambda>i. 0 \<le> i) (map snd (registers a))) (all_archs p)"
  unfolding all_archs_def profiles
  by code_simp

lemma index_nonneg:
  assumes "a \<in> set (all_archs p)" and "(name, idx) \<in> set (registers a)"
  shows "0 \<le> idx"
proof -
  from indices_nonneg_exec [of p] assms(1)
  have "list_all (\<lambda>i. 0 \<le> i) (map snd (registers a))"
    by (simp add: list_all_iff)
  moreover from assms(2) have "idx \<in> set (map snd (registers a))"
    by force
  ultimately show ?thesis
    by (auto simp: list_all_iff)
qed


text \<open>
  C3, as amended. On each of the six profiles, for every name of the register table other
  than AArch64's \<open>SP\<close>, whose index has a slot in the engine's register array, and every
  value \<open>v\<close> of the word width (\<open>0 \<le> v < 2 ^ bits\<close>, so all-zeros and all-ones
  included): \<open>set_reg\<close> by the name succeeds and writes \<open>v\<close> to that slot, and
  \<open>get_reg\<close> by the name then returns \<open>v\<close>.
\<close>

theorem C3_set_then_get:
  assumes "a \<in> set (all_archs p)" and "(name, idx) \<in> set (registers a)"
    and "\<not> (kind a = AArch64 \<and> name = ''SP'')"
    and "idx < int (length (regs s))"
    and "0 \<le> v" and "v < 2 ^ bits p"
  shows "set_reg a (RegName name) v s = (Inr (), s\<lparr>regs := (regs s)[nat idx := v]\<rparr>)
         \<and> get_reg a (RegName name) (s\<lparr>regs := (regs s)[nat idx := v]\<rparr>)
             = (Inr v, s\<lparr>regs := (regs s)[nat idx := v]\<rparr>)"
proof -
  have look: "map_of (registers a) (str_upper name) = Some idx"
    using key_upper [OF assms(1,2)] key_lookup [OF assms(1,2)] by simp
  have nn: "0 \<le> idx"
    using assms(1,2) by (rule index_nonneg)
  have nb: "kind a \<noteq> Base"
    using assms(1) by (rule kind_not_Base)
  have n32: "kind a = AArch64 \<Longrightarrow> idx \<noteq> 32"
    using kind_AArch64 [OF assms(1)] aarch64_index_32 [of name p] assms(2,3) by auto
  have wr: "set_reg a (RegName name) v s = (Inr (), s\<lparr>regs := (regs s)[nat idx := v]\<rparr>)"
    using look nn nb assms(4,5,6) the_panda_all [OF assms(1)]
    by (simp add: set_reg_def set_reg_val_def c_array_set_def split: arch_kind.splits)
  have rd: "get_reg a (RegName name) (s\<lparr>regs := (regs s)[nat idx := v]\<rparr>)
             = (Inr v, s\<lparr>regs := (regs s)[nat idx := v]\<rparr>)"
    using look nn nb n32 assms(4)
    by (simp add: get_reg_def get_reg_val_def c_array_get_def split: arch_kind.splits)
  from wr rd show ?thesis ..
qed

theorem C3_set_then_get_witness:
  "MipsArch_init mips_panda \<in> set (all_archs mips_panda)
   \<and> (''A3'', 7) \<in> set (registers (MipsArch_init mips_panda))
   \<and> \<not> (kind (MipsArch_init mips_panda) = AArch64 \<and> ''A3'' = ''SP'')
   \<and> 7 < int (length (regs (cpu_with (replicate 32 0) no_memory)))
   \<and> (0 :: int) \<le> 4294967295 \<and> (4294967295 :: int) < 2 ^ bits mips_panda
   \<and> set_reg (MipsArch_init mips_panda) (RegName ''A3'') 4294967295
         (cpu_with (replicate 32 0) no_memory)
       = (Inr (), cpu_with ((replicate 32 0)[7 := 4294967295]) no_memory)
   \<and> get_reg (MipsArch_init mips_panda) (RegName ''A3'')
         (cpu_with ((replicate 32 0)[7 := 4294967295]) no_memory)
       = (Inr 4294967295, cpu_with ((replicate 32 0)[7 := 4294967295]) no_memory)"
proof -
  have h1: "MipsArch_init mips_panda \<in> set (all_archs mips_panda)"
    by (simp add: all_archs_def)
  have h2: "(''A3'', 7) \<in> set (registers (MipsArch_init mips_panda))"
    by (simp add: MipsArch_profile)
  have h3: "\<not> (kind (MipsArch_init mips_panda) = AArch64 \<and> ''A3'' = ''SP'')"
    by simp
  have h4: "7 < int (length (regs (cpu_with (replicate 32 0) no_memory)))"
    by (simp add: cpu_with_def)
  have h5: "(0 :: int) \<le> 4294967295"
    by simp
  have h6: "(4294967295 :: int) < 2 ^ bits mips_panda"
    by (simp add: mips_panda_def)
  show ?thesis
    using C3_set_then_get [OF h1 h2 h3 h4 h5 h6] h1 h2 h3 h4 h5 h6
    by (simp add: cpu_with_def)
qed

text \<open>
  The claim as stated fails on AArch64: with a register array of 33 slots the write of
  all-ones through \<open>SP\<close> succeeds, and the read through \<open>SP\<close> returns 0.
\<close>

theorem C3_counterexample:
  "(''SP'', 32) \<in> set (registers (Aarch64Arch_init aarch64_panda))
   \<and> (0 :: int) \<le> 18446744073709551615
   \<and> (18446744073709551615 :: int) < 2 ^ bits aarch64_panda
   \<and> set_reg (Aarch64Arch_init aarch64_panda) (RegName ''SP'') 18446744073709551615
         (cpu_with (replicate 33 0) no_memory)
       = (Inr (), cpu_with ((replicate 33 0)[32 := 18446744073709551615]) no_memory)
   \<and> fst (get_reg (Aarch64Arch_init aarch64_panda) (RegName ''SP'')
              (cpu_with ((replicate 33 0)[32 := 18446744073709551615]) no_memory)) = Inr 0"
proof -
  have up: "str_upper ''SP'' = ''SP''"
    by code_simp
  show ?thesis
    by (simp add: set_reg_def get_reg_def up Aarch64Arch_profile set_reg_val_def get_reg_val_def
        c_array_set_def cpu_with_def aarch64_panda_def)
qed

section \<open>Stack arguments on X86\<close>

text \<open>\<open>int_of_str\<close> on the forms \<^verbatim>\<open>int()\<close> accepts and on some it refuses.\<close>

lemma int_of_str_examples:
  "int_of_str ''12'' = Inr 12" "int_of_str ''+3'' = Inr 3" "int_of_str ''-3'' = Inr (- 3)"
  "int_of_str '' 0'' = Inr 0" "int_of_str ''1_0'' = Inr 10"
  "int_of_str [] = Inl IntValueError" "int_of_str ''1__0'' = Inl IntValueError"
  "int_of_str ''_1'' = Inl IntValueError" "int_of_str ''1_'' = Inl IntValueError"
  "int_of_str ''+ 3'' = Inl IntValueError" "int_of_str ''{x}'' = Inl IntValueError"
  by code_simp+

lemma x86_stack_text:
  "is_stack_loc ''stack_{x}''" "stack_idx_of ''stack_{x}'' = Inl IntValueError"
  by code_simp+

lemma x86_cdecl_loc:
  assumes "- 20 \<le> i" and "i < 20"
  shows "get_arg_loc (X86Arch_init p) i ''cdecl'' = Inr ''stack_{x}''"
    and "get_arg_loc (X86Arch_init p) i ''default'' = Inr ''stack_{x}''"
  using assms by (simp_all add: get_arg_loc_def X86Arch_profile list_item_def)

text \<open>
  On X86, \<open>get_arg\<close> with \<open>cdecl\<close> or \<open>default\<close> raises the \<^verbatim>\<open>ValueError\<close> of
  \<^verbatim>\<open>int("{x}")\<close> for every index the list accepts and in every CPU state, and leaves the
  state as it was: the stack pointer is not read and guest memory is not touched.
\<close>

lemma x86_cdecl_get_arg_raises:
  assumes "- 20 \<le> i" and "i < 20" and "c = ''cdecl'' \<or> c = ''default''"
  shows "get_arg (X86Arch_init p) i c s = (Inl IntValueError, s)"
  using assms(3) x86_cdecl_loc [OF assms(1,2), of p] x86_stack_text
  by (auto simp: get_arg_def read_stack_def)

text \<open>
  C1 fails on the code. With \<open>ESP = 4096\<close> and the word 42 readable in guest memory at
  \<open>ESP + 4\<close>, argument 0 of \<open>cdecl\<close> resolves to the location \<^verbatim>\<open>stack_{x}\<close> and
  \<open>get_arg\<close> raises the \<^verbatim>\<open>ValueError\<close> of \<^verbatim>\<open>int("{x}")\<close>; it neither returns 42 nor
  fails with the memory-read error.
\<close>

theorem C1_x86_cdecl_raises_before_read:
  "get_arg_loc (X86Arch_init i386_panda) 0 ''cdecl'' = Inr ''stack_{x}''
   \<and> regs (cpu_with [0, 0, 0, 0, 4096, 0, 0, 0] demo_memory) ! 4 = 4096
   \<and> guest_mem (cpu_with [0, 0, 0, 0, 4096, 0, 0, 0] demo_memory) (4096 + 4) 4 = Some 42
   \<and> get_arg (X86Arch_init i386_panda) 0 ''cdecl'' (cpu_with [0, 0, 0, 0, 4096, 0, 0, 0] demo_memory)
       = (Inl IntValueError, cpu_with [0, 0, 0, 0, 4096, 0, 0, 0] demo_memory)"
  using x86_cdecl_loc(1) [of 0 i386_panda]
    x86_cdecl_get_arg_raises [of 0 "''cdecl''" i386_panda
      "cpu_with [0, 0, 0, 0, 4096, 0, 0, 0] demo_memory"]
  by (simp add: cpu_with_def demo_memory_def)

section \<open>Writing an argument that lives on the stack\<close>

lemma keys_not_stack_exec:
  "list_all (\<lambda>a. list_all (\<lambda>k. take 6 k \<noteq> ''STACK_'') (map fst (registers a))) (all_archs p)"
  unfolding all_archs_def profiles
  by code_simp

lemma upper_stack_prefix: "str_upper ''stack_'' = ''STACK_''"
  by code_simp

lemma stack_loc_upper:
  assumes "is_stack_loc loc"
  shows "take 6 (str_upper loc) = ''STACK_''"
proof -
  from assms have "take 6 loc = ''stack_''"
    by (simp add: is_stack_loc_def str_startswith_def eval_nat_numeral)
  then have "str_upper (take 6 loc) = ''STACK_''"
    by (simp only: upper_stack_prefix)
  then show ?thesis
    by (simp add: str_upper_def take_map)
qed

lemma stack_loc_not_a_register:
  assumes "a \<in> set (all_archs p)" and "is_stack_loc loc"
  shows "map_of (registers a) (str_upper loc) = None"
proof -
  from keys_not_stack_exec [of p] assms(1)
  have "\<forall>k \<in> set (map fst (registers a)). take 6 k \<noteq> ''STACK_''"
    by (simp add: list_all_iff)
  with stack_loc_upper [OF assms(2)] have "str_upper loc \<notin> fst ` set (registers a)"
    by auto
  then show ?thesis
    by (simp add: map_of_eq_None_iff)
qed

text \<open>
  C8, as amended. On each of the six profiles, \<open>set_arg\<close> whose resolved location is a
  stack slot fails, and not silently: it raises the unknown-register error that names the
  upper-cased location string (\<^verbatim>\<open>ValueError("Invalid register name STACK_1")\<close> for the
  location \<^verbatim>\<open>stack_1\<close> of MIPS32), because the location is handed to \<open>set_reg\<close> as a
  register name; the CPU state is left as it was.
\<close>

theorem C8_set_arg_stack_slot:
  assumes "a \<in> set (all_archs p)" and "get_arg_loc a idx convention = Inr loc"
    and "is_stack_loc loc"
  shows "set_arg a idx val convention s = (Inl (UnknownRegister (str_upper loc)), s)"
  using stack_loc_not_a_register [OF assms(1,3)] assms(2)
  by (simp add: set_arg_def set_reg_def op_raise_def op_lift_def)

theorem C8_set_arg_stack_slot_witness:
  "MipsArch_init mips_panda \<in> set (all_archs mips_panda)
   \<and> get_arg_loc (MipsArch_init mips_panda) 5 ''syscall'' = Inr ''stack_1''
   \<and> is_stack_loc ''stack_1''
   \<and> set_arg (MipsArch_init mips_panda) 5 9 ''syscall'' (cpu_with (replicate 32 0) no_memory)
       = (Inl (UnknownRegister ''STACK_1''), cpu_with (replicate 32 0) no_memory)"
proof -
  have h1: "MipsArch_init mips_panda \<in> set (all_archs mips_panda)"
    by (simp add: all_archs_def)
  have h2: "get_arg_loc (MipsArch_init mips_panda) 5 ''syscall'' = Inr ''stack_1''"
    by (simp add: get_arg_loc_def MipsArch_profile list_item_def)
  have h3: "is_stack_loc ''stack_1''"
    by code_simp
  have up: "str_upper ''stack_1'' = ''STACK_1''"
    by code_simp
  show ?thesis
    using C8_set_arg_stack_slot [OF h1 h2 h3, of 9 "cpu_with (replicate 32 0) no_memory"] h1 h2 h3
    by (simp add: up)
qed

text \<open>
  The claim as stated fails on MIPS32: argument 6 of \<open>syscall\<close> is the stack slot
  \<open>stack_2\<close>, and \<open>set_arg\<close> raises the unknown-register error, which is not the
  unsupported-operation error.
\<close>

theorem C8_counterexample:
  "get_arg_loc (MipsArch_init mips_panda) 6 ''syscall'' = Inr ''stack_2''
   \<and> is_stack_loc ''stack_2''
   \<and> set_arg (MipsArch_init mips_panda) 6 1 ''syscall'' (cpu_with (replicate 32 0) no_memory)
       = (Inl (UnknownRegister ''STACK_2''), cpu_with (replicate 32 0) no_memory)
   \<and> UnknownRegister ''STACK_2'' \<noteq> UnsupportedOperation"
proof -
  have l: "get_arg_loc (MipsArch_init mips_panda) 6 ''syscall'' = Inr ''stack_2''"
    by (simp add: get_arg_loc_def MipsArch_profile list_item_def)
  have h3: "is_stack_loc ''stack_2''"
    by code_simp
  have up: "str_upper ''stack_2'' = ''STACK_2''"
    by code_simp
  show ?thesis
    using l h3
    by (simp add: set_arg_def set_reg_def up MipsArch_profile op_raise_def op_lift_def)
qed

section \<open>Syscall return values on MIPS\<close>

lemma mips_cases:
  assumes "a = MipsArch_init p \<or> a = Mips64Arch_init p"
  shows "kind a = MIPS32 \<or> kind a = MIPS64"
    and "the_panda a = p"
    and "map_of (registers a) ''A3'' = Some 7"
    and "map_of (registers a) ''V0'' = Some 2"
    and "reg_retval a = Some [(''default'', ''V0''), (''syscall'', ''V0'')]"
  using assms by (auto simp: MipsArch_profile Mips64Arch_profile)

lemma upper_mips_names:
  "str_upper ''A3'' = ''A3''" "str_upper ''a3'' = ''A3''" "str_upper ''V0'' = ''V0''"
  by code_simp+

lemma mips_get_reg:
  assumes "a = MipsArch_init p \<or> a = Mips64Arch_init p" and "7 < length (regs s)"
  shows "get_reg a (RegName ''A3'') s = (Inr (regs s ! 7), s)"
    and "get_reg a (RegName ''V0'') s = (Inr (regs s ! 2), s)"
  using mips_cases(1,3,4) [OF assms(1)] assms(2)
  by (auto simp: get_reg_def get_reg_val_def c_array_get_def upper_mips_names)

lemma mips_set_reg:
  assumes "a = MipsArch_init p \<or> a = Mips64Arch_init p" and "7 < length (regs s)"
  shows "set_reg a (RegName ''a3'') v s =
           (if 0 \<le> v \<and> v < 2 ^ bits p then (Inr (), s\<lparr>regs := (regs s)[7 := v]\<rparr>)
            else (Inl OverflowError, s))"
    and "set_reg a (RegName ''V0'') v s =
           (if 0 \<le> v \<and> v < 2 ^ bits p then (Inr (), s\<lparr>regs := (regs s)[2 := v]\<rparr>)
            else (Inl OverflowError, s))"
  using mips_cases(1,2,3,4) [OF assms(1)] assms(2)
  by (auto simp: set_reg_def set_reg_val_def c_array_set_def upper_mips_names)

lemma mips_get_retval_syscall:
  assumes "a = MipsArch_init p \<or> a = Mips64Arch_init p" and "7 < length (regs s)"
  shows "get_retval a ''syscall'' s =
           (Inr ((if regs s ! 7 = 1 then - 1 else 1) * (regs s ! 2)), s)"
  using mips_cases(1,5) [OF assms(1)] mips_get_reg [OF assms]
  by (auto simp: get_retval_def MipsArch_get_retval_def PandaArch_get_retval_def
      get_ret_val_reg_def op_bind_def op_return_def op_lift_def)

lemma mips_set_retval_syscall:
  assumes "a = MipsArch_init p \<or> a = Mips64Arch_init p" and "7 < length (regs s)"
    and "0 < bits p"
  shows "set_retval a val ''syscall'' failure s =
           (let stored = (if failure \<and> from_unsigned_guest p val < 0
                          then - from_unsigned_guest p val else val);
                s1 = s\<lparr>regs := (regs s)[7 := (if failure then 1 else 0)]\<rparr>
            in if 0 \<le> stored \<and> stored < 2 ^ bits p
               then (Inr (), s1\<lparr>regs := (regs s1)[2 := stored]\<rparr>)
               else (Inl OverflowError, s1))"
proof -
  let ?s1 = "s\<lparr>regs := (regs s)[7 := (if failure then 1 else 0)]\<rparr>"
  have l: "7 < length (regs ?s1)"
    using assms(2) by simp
  have one: "(1 :: int) < 2 ^ bits p"
    using assms(3) by (simp add: one_less_power)
  have a3: "set_reg a (RegName ''a3'') (if failure then 1 else 0) s = (Inr (), ?s1)"
    using mips_set_reg(1) [OF assms(1,2), of "if failure then 1 else 0"] one by simp
  show ?thesis
    using mips_cases(1,2,5) [OF assms(1)] a3 mips_set_reg(2) [OF assms(1) l]
    by (auto simp: set_retval_def MipsArch_set_retval_def PandaArch_set_retval_def
        get_ret_val_reg_def op_bind_def op_lift_def Let_def)
qed

text \<open>
  C5. On both MIPS variants (word width at least one bit), in every CPU state whose
  register array has the slots of \<open>V0\<close> (2) and \<open>A3\<close> (7), \<open>set_retval\<close> with the
  \<open>syscall\<close> convention first writes 1 to \<open>A3\<close> when \<open>failure\<close> is set and 0 otherwise.
  It then writes to \<open>V0\<close> the magnitude of the value read as a signed word when
  \<open>failure\<close> is set and that signed value is negative, and the value itself otherwise;
  a number that does not fit an unsigned word is refused by the register array with
  \<^verbatim>\<open>OverflowError\<close>, \<open>A3\<close> staying written. For every value of the word, signed or
  unsigned (\<open>-(2 ^ bits) < val < 2 ^ bits\<close>), that is negative as a signed word, the
  magnitude fits, so with \<open>failure\<close> set the call succeeds. A negative value is its own
  signed reading, so \<open>set_retval(cpu, -7, "syscall", failure=True)\<close> leaves \<open>A3 = 1\<close> and
  \<open>V0 = 7\<close>.
\<close>

theorem C5_mips_set_retval_syscall:
  assumes "a = MipsArch_init p \<or> a = Mips64Arch_init p" and "7 < length (regs s)"
    and "0 < bits p"
  shows "set_retval a val ''syscall'' failure s =
           (let stored = (if failure \<and> from_unsigned_guest p val < 0
                          then \<bar>from_unsigned_guest p val\<bar> else val);
                s1 = s\<lparr>regs := (regs s)[7 := (if failure then 1 else 0)]\<rparr>
            in if 0 \<le> stored \<and> stored < 2 ^ bits p
               then (Inr (), s1\<lparr>regs := (regs s1)[2 := stored]\<rparr>)
               else (Inl OverflowError, s1))
         \<and> (val < 0 \<longrightarrow> from_unsigned_guest p val = val)
         \<and> (- (2 ^ bits p) < val \<and> val < 2 ^ bits p \<and> from_unsigned_guest p val < 0
              \<longrightarrow> 0 \<le> \<bar>from_unsigned_guest p val\<bar>
                  \<and> \<bar>from_unsigned_guest p val\<bar> < 2 ^ bits p)"
proof -
  have pos: "(0 :: int) < 2 ^ (bits p - 1)"
    by simp
  have np: "\<not> 2 ^ (bits p - 1) \<le> val" if "val < 0"
    using that pos by linarith
  have neg: "val < 0 \<longrightarrow> from_unsigned_guest p val = val"
    using np by (simp add: from_unsigned_guest_def)
  have fits: "- (2 ^ bits p) < val \<and> val < 2 ^ bits p \<and> from_unsigned_guest p val < 0
              \<longrightarrow> 0 \<le> \<bar>from_unsigned_guest p val\<bar>
                  \<and> \<bar>from_unsigned_guest p val\<bar> < 2 ^ bits p"
  proof (intro impI, elim conjE)
    assume lo: "- (2 ^ bits p) < val" and hi: "val < 2 ^ bits p"
      and n: "from_unsigned_guest p val < 0"
    show "0 \<le> \<bar>from_unsigned_guest p val\<bar> \<and> \<bar>from_unsigned_guest p val\<bar> < 2 ^ bits p"
    proof (cases "2 ^ (bits p - 1) \<le> val")
      case True
      then have "from_unsigned_guest p val = val - 2 ^ bits p"
        by (simp add: from_unsigned_guest_def)
      with True hi pos show ?thesis
        by linarith
    next
      case False
      then have "from_unsigned_guest p val = val"
        by (simp add: from_unsigned_guest_def)
      with n lo show ?thesis
        by linarith
    qed
  qed
  have eq: "(if failure \<and> from_unsigned_guest p val < 0
                  then - from_unsigned_guest p val else val)
               = (if failure \<and> from_unsigned_guest p val < 0
                  then \<bar>from_unsigned_guest p val\<bar> else val)"
    by simp
  show ?thesis
    using mips_set_retval_syscall [OF assms, of val failure] neg fits
    unfolding eq by blast
qed

theorem C5_mips_set_retval_syscall_witness:
  "(MipsArch_init mips_panda = MipsArch_init mips_panda
      \<or> MipsArch_init mips_panda = Mips64Arch_init mips_panda)
   \<and> 7 < length (regs (cpu_with (replicate 32 0) no_memory))
   \<and> 0 < bits mips_panda
   \<and> set_retval (MipsArch_init mips_panda) (- 7) ''syscall'' True
         (cpu_with (replicate 32 0) no_memory)
       = (Inr (), cpu_with ((replicate 32 0)[7 := 1, 2 := 7]) no_memory)
   \<and> set_retval (MipsArch_init mips_panda) (- 7) ''syscall'' False
         (cpu_with (replicate 32 0) no_memory)
       = (Inl OverflowError, cpu_with ((replicate 32 0)[7 := 0]) no_memory)
   \<and> from_unsigned_guest mips_panda (- 7) = - 7"
proof -
  have h1: "MipsArch_init mips_panda = MipsArch_init mips_panda
      \<or> MipsArch_init mips_panda = Mips64Arch_init mips_panda"
    by simp
  have h2: "7 < length (regs (cpu_with (replicate 32 0) no_memory))"
    by (simp add: cpu_with_def)
  have h3: "0 < bits mips_panda"
    by (simp add: mips_panda_def)
  have f: "from_unsigned_guest mips_panda (- 7) = - 7"
    by (simp add: from_unsigned_guest_def mips_panda_def)
  have b: "(2 :: int) ^ bits mips_panda = 4294967296"
    by (simp add: mips_panda_def)
  show ?thesis
    using C5_mips_set_retval_syscall [OF h1 h2 h3, of "- 7" True]
      C5_mips_set_retval_syscall [OF h1 h2 h3, of "- 7" False] h2 h3 f
    by (simp add: cpu_with_def b Let_def)
qed

text \<open>
  C4, as amended. On both MIPS variants, in every CPU state whose register array has the
  slots of \<open>V0\<close> and \<open>A3\<close> and whose \<open>V0\<close> holds a value below \<open>2 ^ (bits - 1)\<close> (a word
  that is its own signed reading), \<open>get_retval\<close> with the \<open>syscall\<close> convention returns that
  value negated when \<open>A3\<close> is exactly 1 and unchanged for any other \<open>A3\<close>, 0 included:
  \<open>A3 = 1\<close> and \<open>V0 = 5\<close> give \<open>-5\<close>, \<open>A3 = 0\<close> gives 5.
\<close>

theorem C4_mips_get_retval_syscall:
  assumes "a = MipsArch_init p \<or> a = Mips64Arch_init p" and "7 < length (regs s)"
    and "regs s ! 2 < 2 ^ (bits p - 1)"
  shows "get_retval a ''syscall'' s =
           (Inr (if regs s ! 7 = 1 then - from_unsigned_guest p (regs s ! 2)
                 else from_unsigned_guest p (regs s ! 2)), s)
         \<and> from_unsigned_guest p (regs s ! 2) = regs s ! 2"
proof -
  have c: "from_unsigned_guest p (regs s ! 2) = regs s ! 2"
    using assms(3) by (simp add: from_unsigned_guest_def)
  show ?thesis
    using mips_get_retval_syscall [OF assms(1,2)] c by simp
qed

theorem C4_mips_get_retval_syscall_witness:
  "(MipsArch_init mips_panda = MipsArch_init mips_panda
      \<or> MipsArch_init mips_panda = Mips64Arch_init mips_panda)
   \<and> 7 < length (regs (cpu_with [0, 0, 5, 0, 0, 0, 0, 1] no_memory))
   \<and> regs (cpu_with [0, 0, 5, 0, 0, 0, 0, 1] no_memory) ! 2 < 2 ^ (bits mips_panda - 1)
   \<and> get_retval (MipsArch_init mips_panda) ''syscall'' (cpu_with [0, 0, 5, 0, 0, 0, 0, 1] no_memory)
       = (Inr (- 5), cpu_with [0, 0, 5, 0, 0, 0, 0, 1] no_memory)
   \<and> 7 < length (regs (cpu_with [0, 0, 5, 0, 0, 0, 0, 0] no_memory))
   \<and> regs (cpu_with [0, 0, 5, 0, 0, 0, 0, 0] no_memory) ! 2 < 2 ^ (bits mips_panda - 1)
   \<and> get_retval (MipsArch_init mips_panda) ''syscall'' (cpu_with [0, 0, 5, 0, 0, 0, 0, 0] no_memory)
       = (Inr 5, cpu_with [0, 0, 5, 0, 0, 0, 0, 0] no_memory)"
proof -
  have h1: "MipsArch_init mips_panda = MipsArch_init mips_panda
      \<or> MipsArch_init mips_panda = Mips64Arch_init mips_panda"
    by simp
  have h2: "7 < length (regs (cpu_with [0, 0, 5, 0, 0, 0, 0, 1] no_memory))"
    and h2': "7 < length (regs (cpu_with [0, 0, 5, 0, 0, 0, 0, 0] no_memory))"
    by (simp_all add: cpu_with_def)
  have h3: "regs (cpu_with [0, 0, 5, 0, 0, 0, 0, 1] no_memory) ! 2 < 2 ^ (bits mips_panda - 1)"
    and h3': "regs (cpu_with [0, 0, 5, 0, 0, 0, 0, 0] no_memory) ! 2 < 2 ^ (bits mips_panda - 1)"
    by (simp_all add: cpu_with_def mips_panda_def)
  show ?thesis
    using C4_mips_get_retval_syscall [OF h1 h2 h3] C4_mips_get_retval_syscall [OF h1 h2' h3']
      h2 h2' h3 h3'
    by (simp add: cpu_with_def)
qed

text \<open>
  The claim as stated fails for a status register that is neither 0 nor 1: with
  \<open>A3 = 2\<close> and \<open>V0 = 5\<close> the status register is nonzero and the value is returned as
  it is, not negated.
\<close>

theorem C4_counterexample:
  "get_reg (MipsArch_init mips_panda) (RegName ''A3'') (cpu_with [0, 0, 5, 0, 0, 0, 0, 2] no_memory)
     = (Inr 2, cpu_with [0, 0, 5, 0, 0, 0, 0, 2] no_memory)
   \<and> (2 :: int) \<noteq> 0
   \<and> from_unsigned_guest mips_panda 5 = 5
   \<and> get_retval (MipsArch_init mips_panda) ''syscall'' (cpu_with [0, 0, 5, 0, 0, 0, 0, 2] no_memory)
       = (Inr 5, cpu_with [0, 0, 5, 0, 0, 0, 0, 2] no_memory)
   \<and> (5 :: int) \<noteq> - 5"
proof -
  have h1: "MipsArch_init mips_panda = MipsArch_init mips_panda
      \<or> MipsArch_init mips_panda = Mips64Arch_init mips_panda"
    by simp
  have h2: "7 < length (regs (cpu_with [0, 0, 5, 0, 0, 0, 0, 2] no_memory))"
    by (simp add: cpu_with_def)
  have f: "from_unsigned_guest mips_panda 5 = 5"
    by (simp add: from_unsigned_guest_def mips_panda_def)
  show ?thesis
    using mips_get_reg(1) [OF h1 h2] mips_get_retval_syscall [OF h1 h2] f
    by (simp add: cpu_with_def)
qed

text \<open>
  C2 fails on MIPS: \<^verbatim>\<open>MipsArch.get_retval\<close> calls \<^verbatim>\<open>super().get_retval(cpu)\<close> without the
  convention, so the base method runs with \<open>default\<close> and never converts. With
  \<open>V0 = 0xFFFFFFFF\<close> and \<open>A3 = 0\<close> on 32-bit MIPS the result is 4294967295, while the
  signed reading of that word is \<open>-1\<close>.
\<close>

theorem C2_mips_syscall_retval_not_converted:
  "get_retval (MipsArch_init mips_panda) ''syscall''
       (cpu_with [0, 0, 4294967295, 0, 0, 0, 0, 0] no_memory)
     = (Inr 4294967295, cpu_with [0, 0, 4294967295, 0, 0, 0, 0, 0] no_memory)
   \<and> from_unsigned_guest mips_panda 4294967295 = - 1"
proof -
  have h1: "MipsArch_init mips_panda = MipsArch_init mips_panda
      \<or> MipsArch_init mips_panda = Mips64Arch_init mips_panda"
    by simp
  have h2: "7 < length (regs (cpu_with [0, 0, 4294967295, 0, 0, 0, 0, 0] no_memory))"
    by (simp add: cpu_with_def)
  have f: "from_unsigned_guest mips_panda 4294967295 = - 1"
    by (simp add: from_unsigned_guest_def mips_panda_def)
  show ?thesis
    using mips_get_retval_syscall [OF h1 h2] f
    by (simp add: cpu_with_def)
qed

section \<open>The tables of the profiles\<close>

lemma convention_names_exec:
  "list_all (\<lambda>a.
      list_all (\<lambda>(c, locs).
          list_all (\<lambda>l. is_stack_loc l \<or> l \<in> set (map fst (registers a))) locs)
        (case call_conventions a of None \<Rightarrow> [] | Some cc \<Rightarrow> cc))
     (all_archs p)"
  unfolding all_archs_def profiles
  by code_simp

lemma retval_names_exec:
  "list_all (\<lambda>a.
      list_all (\<lambda>(c, r). r \<in> set (map fst (registers a)))
        (case reg_retval a of None \<Rightarrow> [] | Some rr \<Rightarrow> rr))
     (all_archs p)"
  unfolding all_archs_def profiles
  by code_simp

lemma convention_names:
  assumes "a \<in> set (all_archs p)" and "call_conventions a = Some cc"
    and "(c, locs) \<in> set cc" and "l \<in> set locs" and "\<not> is_stack_loc l"
  shows "l \<in> set (map fst (registers a))"
proof -
  have 1: "\<forall>x \<in> set (case call_conventions a of None \<Rightarrow> [] | Some cc \<Rightarrow> cc).
             case x of (c, locs) \<Rightarrow>
               \<forall>l \<in> set locs. is_stack_loc l \<or> l \<in> set (map fst (registers a))"
    using convention_names_exec [of p] assms(1) unfolding list_all_iff by blast
  have 2: "\<forall>l \<in> set locs. is_stack_loc l \<or> l \<in> set (map fst (registers a))"
    using 1 assms(2,3) by force
  show ?thesis
    using 2 assms(4,5) by blast
qed

lemma retval_names:
  assumes "a \<in> set (all_archs p)" and "reg_retval a = Some rr" and "(c, r) \<in> set rr"
  shows "r \<in> set (map fst (registers a))"
proof -
  have 1: "\<forall>x \<in> set (case reg_retval a of None \<Rightarrow> [] | Some rr \<Rightarrow> rr).
             case x of (c, r) \<Rightarrow> r \<in> set (map fst (registers a))"
    using retval_names_exec [of p] assms(1) unfolding list_all_iff by blast
  show ?thesis
    using 1 assms(2,3) by force
qed

lemma keys_distinct_upper:
  assumes "a \<in> set (all_archs p)"
  shows "distinct (map fst (registers a))"
    and "\<forall>k \<in> set (map fst (registers a)). str_upper k = k"
  using keys_distinct_exec [of p] keys_upper_exec [of p] assms
  by (auto simp: list_all_iff)

lemma aarch64_names:
  "map fst (registers (Aarch64Arch_init p)) =
     [''X0'', ''X1'', ''X2'', ''X3'', ''X4'', ''X5'', ''X6'', ''X7'', ''XR'', ''X9'',
      ''X10'', ''X11'', ''X12'', ''X13'', ''X14'', ''X15'', ''IP0'', ''IP1'', ''PR'',
      ''X19'', ''X20'', ''X21'', ''X22'', ''X23'', ''X24'', ''X25'', ''X26'', ''X27'',
      ''X28'', ''FP'', ''LR'', ''SP'']"
  by (simp add: Aarch64Arch_profile)

text \<open>
  C6, as amended. On each of the six profiles the keys of the register table are pairwise
  distinct and upper case, every location of a calling convention that is not a stack slot
  (a string that starts with \<open>stack_\<close>) is a key of the table, and so is every register of the return-value
  mapping. The AArch64 table has 32 names: \<open>X0\<close> to \<open>X7\<close>, \<open>XR\<close>, \<open>X9\<close> to \<open>X15\<close>,
  \<open>IP0\<close>, \<open>IP1\<close>, \<open>PR\<close>, \<open>X19\<close> to \<open>X28\<close>, \<open>FP\<close>, \<open>LR\<close> and \<open>SP\<close>.
\<close>

theorem C6_profile_tables:
  assumes "a \<in> set (all_archs p)"
  shows "distinct (map fst (registers a))
         \<and> (\<forall>k \<in> set (map fst (registers a)). str_upper k = k)
         \<and> (\<forall>cc c locs l. call_conventions a = Some cc \<and> (c, locs) \<in> set cc \<and> l \<in> set locs
                \<and> \<not> is_stack_loc l \<longrightarrow> l \<in> set (map fst (registers a)))
         \<and> (\<forall>rr c r. reg_retval a = Some rr \<and> (c, r) \<in> set rr
                \<longrightarrow> r \<in> set (map fst (registers a)))
         \<and> length (registers (Aarch64Arch_init p)) = 32
         \<and> map fst (registers (Aarch64Arch_init p)) =
             [''X0'', ''X1'', ''X2'', ''X3'', ''X4'', ''X5'', ''X6'', ''X7'', ''XR'', ''X9'',
              ''X10'', ''X11'', ''X12'', ''X13'', ''X14'', ''X15'', ''IP0'', ''IP1'', ''PR'',
              ''X19'', ''X20'', ''X21'', ''X22'', ''X23'', ''X24'', ''X25'', ''X26'', ''X27'',
              ''X28'', ''FP'', ''LR'', ''SP'']"
proof -
  have n: "length (registers (Aarch64Arch_init p)) = 32"
    using arg_cong [OF aarch64_names [of p], of length] by simp
  have c: "\<forall>cc c locs l. call_conventions a = Some cc \<and> (c, locs) \<in> set cc \<and> l \<in> set locs
                \<and> \<not> is_stack_loc l \<longrightarrow> l \<in> set (map fst (registers a))"
    using convention_names [OF assms] by blast
  have r: "\<forall>rr c r. reg_retval a = Some rr \<and> (c, r) \<in> set rr
                \<longrightarrow> r \<in> set (map fst (registers a))"
    using retval_names [OF assms] by blast
  show ?thesis
    using keys_distinct_upper [OF assms] c r n aarch64_names [of p] by blast
qed

theorem C6_profile_tables_witness:
  "MipsArch_init mips_panda \<in> set (all_archs mips_panda)
   \<and> distinct (map fst (registers (MipsArch_init mips_panda)))
   \<and> str_upper ''ZERO'' = ''ZERO''
   \<and> \<not> is_stack_loc ''A3''
   \<and> ''A3'' \<in> set (map fst (registers (MipsArch_init mips_panda)))
   \<and> is_stack_loc ''stack_1''
   \<and> ''V0'' \<in> set (map fst (registers (MipsArch_init mips_panda)))
   \<and> length (registers (Aarch64Arch_init mips_panda)) = 32"
proof -
  have h1: "MipsArch_init mips_panda \<in> set (all_archs mips_panda)"
    by (simp add: all_archs_def)
  have e: "str_upper ''ZERO'' = ''ZERO''" "\<not> is_stack_loc ''A3''" "is_stack_loc ''stack_1''"
    by code_simp+
  have m: "''A3'' \<in> set (map fst (registers (MipsArch_init mips_panda)))"
    "''V0'' \<in> set (map fst (registers (MipsArch_init mips_panda)))"
    by (simp_all add: MipsArch_profile)
  show ?thesis
    using C6_profile_tables [OF h1] h1 e m by simp
qed

text \<open>
  The claim as stated fails on the count: the AArch64 table has 32 distinct names, not 33.
  The list the table is built from has 33 entries, with \<open>X27\<close> at positions 27 and 28,
  and a dict keeps one entry per key.
\<close>

theorem C6_counterexample:
  "length (map fst (registers (Aarch64Arch_init aarch64_panda))) = 32
   \<and> distinct (map fst (registers (Aarch64Arch_init aarch64_panda)))
   \<and> length aarch64_regnames = 33
   \<and> aarch64_regnames ! 27 = ''X27'' \<and> aarch64_regnames ! 28 = ''X27''
   \<and> (32 :: nat) \<noteq> 33"
proof -
  have d: "distinct (map fst (registers (Aarch64Arch_init aarch64_panda)))"
    unfolding aarch64_names by code_simp
  have l: "length aarch64_regnames = 33
           \<and> aarch64_regnames ! 27 = ''X27'' \<and> aarch64_regnames ! 28 = ''X27''"
    by code_simp
  show ?thesis
    using d l by (simp add: aarch64_names)
qed

section \<open>The signed reading of a word\<close>

lemma upper_retval_names:
  "str_upper ''R0'' = ''R0''" "str_upper ''X0'' = ''X0''"
  "str_upper ''EAX'' = ''EAX''" "str_upper ''RAX'' = ''RAX''"
  by code_simp+

text \<open>
  On the variants that do not override \<open>get_retval\<close>, the \<open>syscall\<close> convention returns
  the signed reading of the return register (\<open>R0\<close>, \<open>X0\<close>, \<open>EAX\<close>, \<open>RAX\<close>, each at
  index 0).
\<close>

lemma get_retval_syscall_signed:
  assumes "a = ArmArch_init p \<or> a = Aarch64Arch_init p \<or> a = X86Arch_init p
           \<or> a = X86_64Arch_init p"
    and "0 < length (regs s)"
  shows "get_retval a ''syscall'' s = (Inr (from_unsigned_guest p (regs s ! 0)), s)"
  using assms
  by (auto simp: get_retval_def PandaArch_get_retval_def get_ret_val_reg_def profiles
      get_reg_def get_reg_val_def c_array_get_def upper_retval_names
      op_bind_def op_return_def op_lift_def Let_def)

text \<open>
  \<open>from_unsigned_guest\<close> is the two's-complement reading of the word library, at both
  word widths of the supported architectures.
\<close>

lemma from_unsigned_guest_sint32:
  assumes "bits p = 32" and "0 \<le> x" and "x < 2 ^ 32"
  shows "from_unsigned_guest p x = sint (word_of_int x :: 32 word)"
proof -
  have s: "sint (word_of_int x :: 32 word) = (x + 2 ^ 31) mod 2 ^ 32 - 2 ^ 31"
    by (simp add: sint_sbintrunc' signed_take_bit_eq_take_bit_shift take_bit_eq_mod)
  show ?thesis
  proof (cases "(2 :: int) ^ 31 \<le> x")
    case True
    have "(x + 2 ^ 31) mod 2 ^ 32 = (x + 2 ^ 31 - 2 ^ 32) mod 2 ^ 32"
      by (simp only: minus_mod_self2)
    also have "\<dots> = x + 2 ^ 31 - 2 ^ 32"
      using True assms(2,3) by (intro mod_pos_pos_trivial) simp_all
    finally show ?thesis
      using True s assms(1) by (simp add: from_unsigned_guest_def)
  next
    case False
    have "(x + 2 ^ 31) mod 2 ^ 32 = x + 2 ^ 31"
      using False assms(2,3) by (intro mod_pos_pos_trivial) simp_all
    then show ?thesis
      using False s assms(1) by (simp add: from_unsigned_guest_def)
  qed
qed

lemma from_unsigned_guest_sint64:
  assumes "bits p = 64" and "0 \<le> x" and "x < 2 ^ 64"
  shows "from_unsigned_guest p x = sint (word_of_int x :: 64 word)"
proof -
  have s: "sint (word_of_int x :: 64 word) = (x + 2 ^ 63) mod 2 ^ 64 - 2 ^ 63"
    by (simp add: sint_sbintrunc' signed_take_bit_eq_take_bit_shift take_bit_eq_mod)
  show ?thesis
  proof (cases "(2 :: int) ^ 63 \<le> x")
    case True
    have "(x + 2 ^ 63) mod 2 ^ 64 = (x + 2 ^ 63 - 2 ^ 64) mod 2 ^ 64"
      by (simp only: minus_mod_self2)
    also have "\<dots> = x + 2 ^ 63 - 2 ^ 64"
      using True assms(2,3) by (intro mod_pos_pos_trivial) simp_all
    finally show ?thesis
      using True s assms(1) by (simp add: from_unsigned_guest_def)
  next
    case False
    have "(x + 2 ^ 63) mod 2 ^ 64 = x + 2 ^ 63"
      using False assms(2,3) by (intro mod_pos_pos_trivial) simp_all
    then show ?thesis
      using False s assms(1) by (simp add: from_unsigned_guest_def)
  qed
qed

text \<open>The concrete sessions carry the word width that \<open>determine_bits\<close> computes.\<close>

lemma sessions_word_width:
  "determine_bits i386_panda = Inr (bits i386_panda, ''little'', 4)"
  "determine_bits x86_64_panda = Inr (bits x86_64_panda, ''little'', 8)"
  "determine_bits arm_panda = Inr (bits arm_panda, ''little'', 4)"
  "determine_bits aarch64_panda = Inr (bits aarch64_panda, ''little'', 8)"
  "determine_bits mips_panda = Inr (bits mips_panda, ''big'', 4)"
  "determine_bits mips64_panda = Inr (bits mips64_panda, ''big'', 8)"
  by (simp_all add: determine_bits_def i386_panda_def x86_64_panda_def arm_panda_def
      aarch64_panda_def mips_panda_def mips64_panda_def)

end
